theory Spec2Isabelle
  imports Complex_Main "HOL-Library.Sublist"
begin

section \<open>JavaScript values and strings\<close>

text \<open>
  A JavaScript string is modelled as a \<^typ>\<open>string\<close>: one list element per UTF-16 code
  unit, so that \<open>s.substring(0, n)\<close> is \<^term>\<open>take n s\<close> and \<open>s.length\<close> is
  \<^term>\<open>length s\<close>. Every string literal of the source is ASCII.

  The body of an HTTP response and the arguments of a rule have the TypeScript type
  \<open>any\<close>: they are JSON values, not only the shapes the protocol documents.
\<close>

datatype jsval =
    JUndefined
  | JNull
  | JBool bool
  | JNum rat
  | JStr string
  | JArr "jsval list"
  | JObj "(string \<times> jsval) list"

text \<open>
  What a promise is rejected with. \<open>err.code\<close> is the only field the handlers branch
  on; a \<open>TypeError\<close> raised by the language has none.
\<close>

datatype js_error =
    AxiosError "string option"
  | TypeError

fun code :: "js_error \<Rightarrow> string option" where
  "code (AxiosError c) = c"
| "code TypeError = None"

text \<open>Decimal rendering of a number inside a template literal.\<close>

definition digit_char :: "nat \<Rightarrow> char" where
  "digit_char d = ''0123456789'' ! d"

fun string_of_nat :: "nat \<Rightarrow> string" where
  "string_of_nat n =
     (if n < 10 then [digit_char n]
      else string_of_nat (n div 10) @ [digit_char (n mod 10)])"

declare string_of_nat.simps [simp del]

section \<open>The webhook check (app/rules/webhook.ts)\<close>

record response =
  status :: int
  data :: jsval

record CheckResult =
  result :: bool
  message :: string

definition maxTimeout :: nat where
  "maxTimeout = 5000"

text \<open>The \<open>validateStatus\<close> option handed to \<open>axios.post\<close>.\<close>

definition validateStatus :: "int \<Rightarrow> bool" where
  "validateStatus st \<longleftrightarrow> (st \<ge> 200 \<and> st < 300) \<or> st = 400"

text \<open>
  What came back from the network: a reply of the server, or no reply (connection
  refused, timeout, ...) with the error axios builds for it.
\<close>

datatype transport =
    Replied response
  | NoReply js_error

text \<open>
  \<open>axios.post\<close>: the promise resolves with the reply when \<open>validateStatus\<close> accepts its
  status and is rejected otherwise. The error axios builds for a refused status belongs
  to the library, so it is the parameter \<open>refused\<close>.
\<close>

definition axios_post :: "(response \<Rightarrow> js_error) \<Rightarrow> transport \<Rightarrow> js_error + response" where
  "axios_post refused t =
     (case t of
        Replied r \<Rightarrow> if validateStatus (status r) then Inr r else Inl (refused r)
      | NoReply e \<Rightarrow> Inl e)"

text \<open>
  \<open>response.data.message\<close>: reading a property of \<open>null\<close> or \<open>undefined\<close> throws; an
  object yields the property or \<open>undefined\<close>; strings, numbers, booleans and arrays
  have no property of that name.
\<close>

fun data_message :: "jsval \<Rightarrow> js_error + jsval" where
  "data_message JUndefined = Inl TypeError"
| "data_message JNull = Inl TypeError"
| "data_message (JObj kvs) =
     Inr (case map_of kvs ''message'' of None \<Rightarrow> JUndefined | Some v \<Rightarrow> v)"
| "data_message _ = Inr JUndefined"

text \<open>
  \<open>m?.substring(0, 75)\<close>: \<open>undefined\<close> when \<open>m\<close> is \<open>null\<close> or \<open>undefined\<close>, the first
  75 code units when \<open>m\<close> is a string, and a \<open>TypeError\<close> (\<open>substring\<close> is not a
  function) for every other JSON value. The result is \<open>undefined\<close> (\<^term>\<open>None\<close>) or a
  string.
\<close>

fun opt_substring :: "jsval \<Rightarrow> js_error + string option" where
  "opt_substring JUndefined = Inr None"
| "opt_substring JNull = Inr None"
| "opt_substring (JStr s) = Inr (Some (take 75 s))"
| "opt_substring _ = Inl TypeError"

text \<open>\<open>!message\<close> for a value that is \<open>undefined\<close> or a string.\<close>

fun falsy :: "string option \<Rightarrow> bool" where
  "falsy None = True"
| "falsy (Some s) = (s = [])"

text \<open>The \<open>.then\<close> callback (lines 29 to 39).\<close>

definition then_handler :: "response \<Rightarrow> js_error + CheckResult" where
  "then_handler response =
     (case data_message (data response) of
        Inl e \<Rightarrow> Inl e
      | Inr m \<Rightarrow>
          (case opt_substring m of
             Inl e \<Rightarrow> Inl e
           | Inr message0 \<Rightarrow>
               (let message1 =
                      (if falsy message0
                       then (if status response = 200 then ''Webhook rule triggered''
                             else ''Webhook rule did not trigger'')
                       else the message0)
                in Inr \<lparr>result = (status response = 200), message = message1\<rparr>)))"

text \<open>
  The \<open>.catch\<close> callback (lines 40 to 65). \<open>failureMode\<close> comes from \<open>rule.args\<close> and is
  compared with \<open>===\<close> against the string \<open>"trigger"\<close>.
\<close>

definition catch_handler :: "jsval \<Rightarrow> js_error \<Rightarrow> CheckResult" where
  "catch_handler failureMode err =
     (if code err = Some ''ECONNABORTED'' then
        \<lparr>result = (if failureMode = JStr ''trigger'' then True else False),
         message =
           (if failureMode = JStr ''trigger''
            then ''Webhook didn't respond within '' @ string_of_nat (maxTimeout div 1000)
                   @ ''s, rule is set to trigger on failure''
            else ''Webhook did not respond within '' @ string_of_nat (maxTimeout div 1000)
                   @ ''s, rule is set to not trigger on failure. '')\<rparr>
      else
        \<lparr>result = (if failureMode = JStr ''trigger'' then True else False),
         message =
           (if failureMode = JStr ''trigger''
            then ''Webhook failed but rule is set to trigger on failure''
            else ''Webhook failed and rule is set to not trigger on failure'')\<rparr>)"

text \<open>
  \<open>webhook\<close>: \<open>axios.post(...).then(...).catch(...)\<close>. The \<open>.catch\<close> is chained after the
  \<open>.then\<close>, so it receives a rejection of the request and also an exception thrown by the
  \<open>.then\<close> callback. The function always returns a \<open>CheckResult\<close>.
\<close>

definition webhook :: "(response \<Rightarrow> js_error) \<Rightarrow> jsval \<Rightarrow> transport \<Rightarrow> CheckResult" where
  "webhook refused failureMode t =
     (case axios_post refused t of
        Inl err \<Rightarrow> catch_handler failureMode err
      | Inr response \<Rightarrow>
          (case then_handler response of
             Inl err \<Rightarrow> catch_handler failureMode err
           | Inr r \<Rightarrow> r))"

text \<open>
  The bodies the webhook protocol documents: the \<open>message\<close> field is missing, \<open>null\<close> or
  a string.
\<close>

fun string_or_missing :: "jsval \<Rightarrow> bool" where
  "string_or_missing JUndefined = True"
| "string_or_missing JNull = True"
| "string_or_missing (JStr s) = True"
| "string_or_missing _ = False"

section \<open>Token-gating validators (validateErc1155, validateErc721, validateErc20)\<close>

text \<open>
  \<open>toLowerCase\<close> on the letters \<open>A\<close> to \<open>Z\<close>. The validators only compare the lowered
  string with ASCII constants, and no other character lowers to a character of those
  constants.
\<close>

definition lower_char :: "char \<Rightarrow> char" where
  "lower_char c =
     (let n = (of_char c :: nat) in if 65 \<le> n \<and> n \<le> 90 then char_of (n + 32) else c)"

definition toLowerCase :: "string \<Rightarrow> string" where
  "toLowerCase s = map lower_char s"

text \<open>\<open>!s\<close> for an optional string: \<open>undefined\<close> and the empty string are falsy.\<close>

fun absent :: "string option \<Rightarrow> bool" where
  "absent None = True"
| "absent (Some s) = (s = [])"

text \<open>
  What is outside the repository: \<open>getAddress\<close> (viem) returns the checksummed address
  or throws on a malformed one, the table \<open>clientsByChainId\<close>, and the contract read,
  which returns a value or is rejected. They are the fields of \<open>chain\<close>. For a chain id
  with no client the contract has no \<open>read\<close> member, and the call on it throws before
  any read is issued.
\<close>

datatype chain_error = InvalidAddress | NoClient

datatype 'a read_outcome = Returned 'a | ReadFailed

record chain =
  getAddress :: "string \<Rightarrow> string option"
  hasClient :: "string \<Rightarrow> bool"
  supportsInterface :: "string \<Rightarrow> string \<Rightarrow> string \<Rightarrow> bool read_outcome"
  allowance :: "string \<Rightarrow> string \<Rightarrow> int read_outcome"

text \<open>
  \<open>contract.read.f(...).catch(() => false)\<close>: the value read, or \<open>false\<close> when the read
  is rejected.
\<close>

fun catch_false :: "bool read_outcome \<Rightarrow> bool" where
  "catch_false (Returned b) = b"
| "catch_false ReadFailed = False"

definition validateErc1155 ::
  "chain \<Rightarrow> string option \<Rightarrow> string option \<Rightarrow> chain_error + bool" where
  "validateErc1155 ch chainId contractAddress =
     (if absent chainId \<or> absent contractAddress then Inr False
      else
        (case getAddress ch (the contractAddress) of
           None \<Rightarrow> Inl InvalidAddress
         | Some address \<Rightarrow>
             if \<not> hasClient ch (the chainId) then Inl NoClient
             else Inr (catch_false (supportsInterface ch (the chainId) address ''0xd9b67a26''))))"

definition validateErc721 ::
  "chain \<Rightarrow> string option \<Rightarrow> string option \<Rightarrow> chain_error + bool" where
  "validateErc721 ch chainId contractAddress =
     (if map_option toLowerCase contractAddress
           = Some (toLowerCase ''0x8ce608ce2b5004397faef1556bfe33bdfbe4696d'')
      then Inr True
      else if absent chainId \<or> absent contractAddress then Inr False
      else
        (case getAddress ch (the contractAddress) of
           None \<Rightarrow> Inl InvalidAddress
         | Some address \<Rightarrow>
             if \<not> hasClient ch (the chainId) then Inl NoClient
             else Inr (catch_false (supportsInterface ch (the chainId) address ''0x80ac58cd''))))"

text \<open>The special case of \<open>validateErc721\<close>: the address of the deployers contract.\<close>

definition deployers721 :: "string option \<Rightarrow> bool" where
  "deployers721 contractAddress \<longleftrightarrow>
     map_option toLowerCase contractAddress
       = Some (toLowerCase ''0x8ce608ce2b5004397faef1556bfe33bdfbe4696d'')"

text \<open>
  \<open>validateErc20\<close>: \<open>anyAllowance !== false\<close> holds for every value \<open>allowance\<close> returns
  (a \<open>bigint\<close>) and fails only for the \<open>false\<close> of the \<open>.catch\<close>.
\<close>

definition alwaysAllow :: "string list" where
  "alwaysAllow = map toLowerCase [''0xa8a30E0dafCA4156f28d96cCa5671a0eEcA5E407'']"

definition validateErc20 ::
  "chain \<Rightarrow> string option \<Rightarrow> string option \<Rightarrow> chain_error + bool" where
  "validateErc20 ch chainId contractAddress =
     (if absent chainId \<or> absent contractAddress then Inr False
      else if toLowerCase (the contractAddress) \<in> set alwaysAllow then Inr True
      else
        (case getAddress ch (the contractAddress) of
           None \<Rightarrow> Inl InvalidAddress
         | Some address \<Rightarrow>
             if \<not> hasClient ch (the chainId) then Inl NoClient
             else
               (case allowance ch (the chainId) address of
                  Returned v \<Rightarrow> Inr True
                | ReadFailed \<Rightarrow> Inr False)))"

section \<open>Persisted state\<close>

text \<open>
  The tables the route handlers read and write, each a list of rows in insertion
  order, with the columns the handlers use. \<open>unhideCalls\<close> is not a table: it lists the
  cast hashes the external unhide API was called with, so that a call is visible in the
  state.
\<close>

record User =
  user_id :: string
  user_name :: string

record ModeratedChannel =
  mc_id :: string
  mc_userId :: string
  disableBannedList :: int

record Comod =
  comod_fid :: string
  comod_channelId :: string

record ModerationLog =
  ml_id :: string
  ml_action :: string
  affectedUserFid :: string
  affectedUsername :: string
  affectedUserAvatarUrl :: "string option"
  actor :: string
  ml_channelId :: string
  reason :: string
  castHash :: "string option"
  castText :: "string option"
  createdAt :: int

record CastLog =
  hash :: string
  replyCount :: int
  cl_createdAt :: int
  cl_updatedAt :: int
  cl_status :: string
  cl_channelId :: string

record Cooldown =
  affectedUserId :: string
  cd_channelId :: string
  active :: bool

record world =
  moderatedChannel :: "ModeratedChannel list"
  comods :: "Comod list"
  moderationLog :: "ModerationLog list"
  castLog :: "CastLog list"
  cooldown :: "Cooldown list"
  unhideCalls :: "string list"

text \<open>What a handler throws, and what it answers when it returns.\<close>

datatype thrown =
    Redirect string int
  | InvariantFailed string
  | RecordNotFound
  | QueryRefused
  | NotANumber
  | AuthFailed
  | UnhideFailed string

datatype reply =
    Json string int
  | ZodIssue int

text \<open>
  An entry of the submitted form, \<open>Object.fromEntries(formData.entries())\<close>: a string or
  an uploaded file.
\<close>

datatype form_value = Text string | File

section \<open>Authorization (canUserModerateChannel, requireUserCanModerateChannel)\<close>

record Moderation =
  mod_result :: bool
  mod_channel :: "ModeratedChannel option"

text \<open>
  \<open>db.moderatedChannel.findUnique\<close> on the id, with the filter: some comod of the
  channel has the user's fid, or the channel's lead is the user. The comods of a channel
  are the rows of \<open>comods\<close> with its id.
\<close>

definition canUserModerateChannel :: "string \<Rightarrow> string \<Rightarrow> world \<Rightarrow> Moderation" where
  "canUserModerateChannel userId channelId w =
     (case find (\<lambda>c. mc_id c = channelId \<and>
                     ((\<exists>m \<in> set (comods w). comod_channelId m = mc_id c \<and> comod_fid m = userId)
                      \<or> mc_userId c = userId))
                (moderatedChannel w) of
        Some channel \<Rightarrow> \<lparr>mod_result = True, mod_channel = Some channel\<rparr>
      | None \<Rightarrow> \<lparr>mod_result = False, mod_channel = None\<rparr>)"

definition requireUserCanModerateChannel ::
  "string \<Rightarrow> string \<Rightarrow> world \<Rightarrow> thrown + ModeratedChannel" where
  "requireUserCanModerateChannel userId channelId w =
     (let m = canUserModerateChannel userId channelId w in
      if \<not> mod_result m \<or> mod_channel m = None then Inl (Redirect ''/'' 403)
      else Inr (the (mod_channel m)))"

section \<open>The moderation log route: manual actions\<close>

text \<open>
  \<open>db.cooldown.update\<close> on the unique key (affectedUserId, channelId) with
  \<open>active: false\<close>: the client throws when no row has the key and otherwise returns the
  row as it is after the update, whether or not the update changed it.
\<close>

definition cooldown_update ::
  "string \<Rightarrow> string \<Rightarrow> world \<Rightarrow> thrown + (Cooldown \<times> world)" where
  "cooldown_update fid channelId w =
     (case find (\<lambda>c. affectedUserId c = fid \<and> cd_channelId c = channelId) (cooldown w) of
        None \<Rightarrow> Inl RecordNotFound
      | Some c \<Rightarrow>
          Inr (c\<lparr>active := False\<rparr>,
               w\<lparr>cooldown :=
                    map (\<lambda>r. if affectedUserId r = fid \<and> cd_channelId r = channelId
                              then r\<lparr>active := False\<rparr> else r)
                        (cooldown w)\<rparr>))"

text \<open>\<open>if (updated)\<close>: the row returned by the update is an object, and an object is truthy.\<close>

definition row_truthy :: "Cooldown \<Rightarrow> bool" where
  "row_truthy updated = True"

text \<open>
  \<open>db.moderationLog.create\<close>: the new row gets the id and the creation time the
  database gives it (\<open>newId\<close>, \<open>now\<close>); the handler sets neither cast hash nor cast text.
\<close>

definition moderationLog_create ::
  "string \<Rightarrow> int \<Rightarrow> string \<Rightarrow> ModerationLog \<Rightarrow> User \<Rightarrow> ModeratedChannel \<Rightarrow> string
     \<Rightarrow> world \<Rightarrow> world" where
  "moderationLog_create newId now act log' user channel why w =
     w\<lparr>moderationLog := moderationLog w @
         [\<lparr>ml_id = newId, ml_action = act,
           affectedUserFid = affectedUserFid log',
           affectedUsername = affectedUsername log',
           affectedUserAvatarUrl = affectedUserAvatarUrl log',
           actor = user_id user, ml_channelId = mc_id channel,
           reason = why, castHash = None, castText = None, createdAt = now\<rparr>]\<rparr>"

text \<open>
  The zod schema of the form: \<open>logId\<close> a string and \<open>intent\<close> one of the three intents.
\<close>

definition parse_log_form :: "(string \<Rightarrow> form_value option) \<Rightarrow> (string \<times> string) option" where
  "parse_log_form rawData =
     (case (rawData ''logId'', rawData ''intent'') of
        (Some (Text logId), Some (Text intent)) \<Rightarrow>
          if intent \<in> set [''end-cooldown'', ''unmute'', ''unhide'']
          then Some (logId, intent) else None
      | _ \<Rightarrow> None)"

text \<open>
  The external unhide API (\<open>unhide\<close> of \<open>warpcast.server\<close>): the call is recorded, and
  \<open>api\<close> says whether it fails.
\<close>

definition unhide :: "(string \<Rightarrow> thrown option) \<Rightarrow> string \<Rightarrow> world \<Rightarrow> thrown option \<times> world" where
  "unhide api h w = (api h, w\<lparr>unhideCalls := unhideCalls w @ [h]\<rparr>)"

text \<open>
  \<open>action\<close> of the moderation log route. \<open>auth\<close> is the outcome of \<open>requireUser\<close> (the
  signed-in user, or what it throws), \<open>params_id\<close> the route parameter \<open>id\<close>. The result
  is what the handler throws or returns, and the state it leaves.
\<close>

definition action_logs ::
  "(string \<Rightarrow> thrown option) \<Rightarrow> string \<Rightarrow> int \<Rightarrow> thrown + User \<Rightarrow> string option
     \<Rightarrow> (string \<Rightarrow> form_value option) \<Rightarrow> world \<Rightarrow> (thrown + reply) \<times> world" where
  "action_logs api newId now auth params_id rawData w =
     (if absent params_id then (Inl (InvariantFailed ''id is required''), w)
      else case auth of
        Inl e \<Rightarrow> (Inl e, w)
      | Inr user \<Rightarrow>
     (case requireUserCanModerateChannel (user_id user) (the params_id) w of
        Inl e \<Rightarrow> (Inl e, w)
      | Inr channel \<Rightarrow>
     (case parse_log_form rawData of
        None \<Rightarrow> (Inr (Json ''Invalid data'' 422), w)
      | Some (logId, intent) \<Rightarrow>
     (case find (\<lambda>l. ml_id l = logId) (moderationLog w) of
        None \<Rightarrow> (Inr (Json ''Log not found'' 404), w)
      | Some log' \<Rightarrow>
          if intent = ''end-cooldown'' then
            (case cooldown_update (affectedUserFid log') (mc_id channel) w of
               Inl e \<Rightarrow> (Inl e, w)
             | Inr (updated, w1) \<Rightarrow>
                 (Inr (Json ''success'' 200),
                  if row_truthy updated
                  then moderationLog_create newId now ''cooldownEnded'' log' user channel
                         (''Cooldown ended by @'' @ user_name user) w1
                  else w1))
          else if intent = ''unmute'' then
            (case cooldown_update (affectedUserFid log') (mc_id channel) w of
               Inl e \<Rightarrow> (Inl e, w)
             | Inr (updated, w1) \<Rightarrow>
                 (Inr (Json ''success'' 200),
                  if row_truthy updated
                  then moderationLog_create newId now ''unmuted'' log' user channel
                         (''Unmuted by @'' @ user_name user) w1
                  else w1))
          else if intent = ''unhide'' then
            (if absent (castHash log') then (Inl (InvariantFailed ''castHash is required''), w)
             else
               (case unhide api (the (castHash log')) w of
                  (Some e, w1) \<Rightarrow> (Inl e, w1)
                | (None, w1) \<Rightarrow>
                    (Inr (Json ''success'' 200),
                     moderationLog_create newId now ''unhide'' log' user channel
                       (''Unhidden by @'' @ user_name user) w1)))
          else (Inr (Json ''Invalid intent'' 422), w)))))"

section \<open>The moderation log route: paginated reading\<close>

text \<open>
  The JavaScript numbers that arise from \<open>parseInt\<close> and the arithmetic of
  \<open>getPageInfo\<close>: \<open>NaN\<close>, the two infinities, and the doubles whose value is an integer
  (\<open>Fin\<close>). The sign of zero is not kept; nothing here observes it.
\<close>

datatype jsnum = NaN | Fin int | PosInf | NegInf

text \<open>
  Rounding an integer to the nearest double, ties to even: a double keeps 53 significant
  bits, and a magnitude that rounds to \<open>2 ^ 1024\<close> or more is infinite. \<open>shift_of n\<close> is
  the number of low bits that do not fit.
\<close>

fun shift_of :: "nat \<Rightarrow> nat" where
  "shift_of n = (if n < 2 ^ 53 then 0 else Suc (shift_of (n div 2)))"

declare shift_of.simps [simp del]

definition round_double :: "int \<Rightarrow> jsnum" where
  "round_double z =
     (let n = nat \<bar>z\<bar>;
          k = shift_of n;
          q = n div 2 ^ k;
          r = n mod 2 ^ k;
          m = (if 2 * r > 2 ^ k \<or> (2 * r = 2 ^ k \<and> odd q) then q + 1 else q) * 2 ^ k
      in if m \<ge> 2 ^ 1024 then (if z < 0 then NegInf else PosInf)
         else Fin (if z < 0 then - int m else int m))"

fun Math_max :: "jsnum \<Rightarrow> jsnum \<Rightarrow> jsnum" where
  "Math_max NaN b = NaN"
| "Math_max a NaN = NaN"
| "Math_max PosInf b = PosInf"
| "Math_max a PosInf = PosInf"
| "Math_max NegInf b = b"
| "Math_max a NegInf = a"
| "Math_max (Fin a) (Fin b) = Fin (max a b)"

fun Math_min :: "jsnum \<Rightarrow> jsnum \<Rightarrow> jsnum" where
  "Math_min NaN b = NaN"
| "Math_min a NaN = NaN"
| "Math_min NegInf b = NegInf"
| "Math_min a NegInf = NegInf"
| "Math_min PosInf b = b"
| "Math_min a PosInf = a"
| "Math_min (Fin a) (Fin b) = Fin (min a b)"

text \<open>\<open>a - b\<close> and \<open>a * b\<close>: the exact result, rounded.\<close>

fun js_minus :: "jsnum \<Rightarrow> jsnum \<Rightarrow> jsnum" where
  "js_minus NaN b = NaN"
| "js_minus a NaN = NaN"
| "js_minus PosInf PosInf = NaN"
| "js_minus NegInf NegInf = NaN"
| "js_minus PosInf b = PosInf"
| "js_minus NegInf b = NegInf"
| "js_minus a PosInf = NegInf"
| "js_minus a NegInf = PosInf"
| "js_minus (Fin a) (Fin b) = round_double (a - b)"

fun js_times :: "jsnum \<Rightarrow> jsnum \<Rightarrow> jsnum" where
  "js_times NaN b = NaN"
| "js_times a NaN = NaN"
| "js_times (Fin a) (Fin b) = round_double (a * b)"
| "js_times (Fin a) PosInf = (if a = 0 then NaN else if a < 0 then NegInf else PosInf)"
| "js_times (Fin a) NegInf = (if a = 0 then NaN else if a < 0 then PosInf else NegInf)"
| "js_times PosInf (Fin b) = (if b = 0 then NaN else if b < 0 then NegInf else PosInf)"
| "js_times NegInf (Fin b) = (if b = 0 then NaN else if b < 0 then PosInf else NegInf)"
| "js_times PosInf PosInf = PosInf"
| "js_times NegInf NegInf = PosInf"
| "js_times PosInf NegInf = NegInf"
| "js_times NegInf PosInf = NegInf"

text \<open>\<open>isNaN(x) ? d : x\<close>.\<close>

fun nan_default :: "jsnum \<Rightarrow> jsnum \<Rightarrow> jsnum" where
  "nan_default d NaN = d"
| "nan_default d x = x"

text \<open>
  \<open>parseInt\<close> with no radix: leading white space is skipped, then an optional sign, then
  \<open>0x\<close> or \<open>0X\<close> selects base 16; the value is that of the longest prefix of digits,
  rounded to a double, and \<open>NaN\<close> when there is none. (Past 20 significant decimal
  digits the language lets an engine round the digits first; the value here is the
  nearest double.)
\<close>

definition isWhiteSpace :: "char \<Rightarrow> bool" where
  "isWhiteSpace c \<longleftrightarrow> (of_char c :: nat) \<in> set [9, 10, 11, 12, 13, 32, 160]"

definition digit_of :: "nat \<Rightarrow> char \<Rightarrow> nat option" where
  "digit_of radix c =
     (let n = (of_char c :: nat);
          v = (if 48 \<le> n \<and> n \<le> 57 then Some (n - 48)
               else if 97 \<le> n \<and> n \<le> 122 then Some (n - 87)
               else if 65 \<le> n \<and> n \<le> 90 then Some (n - 55)
               else None)
      in case v of None \<Rightarrow> None | Some d \<Rightarrow> if d < radix then Some d else None)"

fun digits_value :: "nat \<Rightarrow> nat \<Rightarrow> string \<Rightarrow> nat" where
  "digits_value radix acc [] = acc"
| "digits_value radix acc (c # cs) =
     (case digit_of radix c of
        None \<Rightarrow> acc
      | Some d \<Rightarrow> digits_value radix (acc * radix + d) cs)"

definition parseInt :: "string \<Rightarrow> jsnum" where
  "parseInt s =
     (let s1 = dropWhile isWhiteSpace s;
          neg = (take 1 s1 = ''-'');
          s2 = (if take 1 s1 = ''-'' \<or> take 1 s1 = ''+'' then drop 1 s1 else s1);
          hex = (take 2 s2 = ''0x'' \<or> take 2 s2 = ''0X'');
          radix = (if hex then 16 else 10);
          s3 = (if hex then drop 2 s2 else s2)
      in case s3 of
           [] \<Rightarrow> NaN
         | c # cs \<Rightarrow>
             (case digit_of radix c of
                None \<Rightarrow> NaN
              | Some d \<Rightarrow>
                  round_double ((if neg then - 1 else 1) * int (digits_value radix 0 s3))))"

text \<open>\<open>v || d\<close> for what \<open>searchParams.get\<close> returns: \<open>null\<close> and \<open>""\<close> give \<open>d\<close>.\<close>

definition or_else :: "string option \<Rightarrow> string \<Rightarrow> string" where
  "or_else v d = (if absent v then d else the v)"

definition defaultPageSize :: nat where
  "defaultPageSize = 50"

record PageInfo =
  page :: jsnum
  pageSize :: jsnum
  skip :: jsnum

text \<open>\<open>getPageInfo\<close>, on the query parameters of the request.\<close>

definition getPageInfo :: "(string \<Rightarrow> string option) \<Rightarrow> PageInfo" where
  "getPageInfo searchParams =
     (let page0 = Math_max (parseInt (or_else (searchParams ''page'') ''1'')) (Fin 1);
          pageSize0 =
            Math_max
              (Math_min
                 (parseInt (or_else (searchParams ''pageSize'') (string_of_nat defaultPageSize)))
                 (Fin 100))
              (Fin 0);
          skip0 = js_times (js_minus page0 (Fin 1)) pageSize0
      in \<lparr>page = nan_default (Fin 1) page0,
          pageSize = nan_default (Fin (int defaultPageSize)) pageSize0,
          skip = nan_default (Fin 0) skip0\<rparr>)"

text \<open>
  \<open>db.moderationLog.findMany\<close> with \<open>where channelId\<close>, \<open>orderBy createdAt desc\<close>, \<open>skip\<close> and
  \<open>take\<close>, and \<open>db.moderationLog.count\<close>. Rows with equal creation times keep their
  insertion order here; the database leaves their order open. The database client takes
  \<open>skip\<close> as a 64-bit signed integer and refuses the query otherwise, so an infinite
  \<open>skip\<close> or one of \<open>2 ^ 63\<close> or more makes the call throw. \<open>take\<close> is the page size,
  which is never negative.
\<close>

definition newest_first :: "string \<Rightarrow> world \<Rightarrow> ModerationLog list" where
  "newest_first channelId w =
     sort_key (\<lambda>l. - createdAt l) (filter (\<lambda>l. ml_channelId l = channelId) (moderationLog w))"

definition findMany ::
  "string \<Rightarrow> jsnum \<Rightarrow> jsnum \<Rightarrow> world \<Rightarrow> thrown + ModerationLog list" where
  "findMany channelId take_n skip_n w =
     (case (take_n, skip_n) of
        (Fin t, Fin s) \<Rightarrow>
          if 0 \<le> t \<and> 0 \<le> s \<and> s < 2 ^ 63
          then Inr (take (nat t) (drop (nat s) (newest_first channelId w)))
          else Inl QueryRefused
      | _ \<Rightarrow> Inl QueryRefused)"

definition count_logs :: "string \<Rightarrow> world \<Rightarrow> int" where
  "count_logs channelId w =
     int (length (filter (\<lambda>l. ml_channelId l = channelId) (moderationLog w)))"

record LoaderData =
  ld_page :: jsnum
  ld_pageSize :: jsnum
  ld_total :: int
  ld_moderationLogs :: "ModerationLog list"

definition loader_logs ::
  "thrown + User \<Rightarrow> string option \<Rightarrow> (string \<Rightarrow> string option) \<Rightarrow> world
     \<Rightarrow> thrown + LoaderData" where
  "loader_logs auth params_id searchParams w =
     (if absent params_id then Inl (InvariantFailed ''id is required'')
      else case auth of
        Inl e \<Rightarrow> Inl e
      | Inr user \<Rightarrow>
     (case requireUserCanModerateChannel (user_id user) (the params_id) w of
        Inl e \<Rightarrow> Inl e
      | Inr channel \<Rightarrow>
          (let info = getPageInfo searchParams in
           case findMany (mc_id channel) (pageSize info) (skip info) w of
             Inl e \<Rightarrow> Inl e
           | Inr moderationLogs \<Rightarrow>
               Inr \<lparr>ld_page = page info, ld_pageSize = pageSize info,
                    ld_total = count_logs (mc_id channel) w,
                    ld_moderationLogs = moderationLogs\<rparr>)))"

section \<open>The settings route: deleting a channel\<close>

definition parse_settings_form :: "(string \<Rightarrow> form_value option) \<Rightarrow> string option" where
  "parse_settings_form rawData =
     (case rawData ''intent'' of
        Some (Text intent) \<Rightarrow>
          if intent \<in> set [''deleteChannel'', ''updateBannedListSetting'']
          then Some intent else None
      | _ \<Rightarrow> None)"

text \<open>
  \<open>action\<close> of the settings route. \<open>toNumber\<close> stands for \<open>Number(...)\<close> on the form entry,
  with \<^term>\<open>None\<close> for a value the integer column refuses. The answers of
  \<open>successResponse\<close> and \<open>errorResponse\<close> also flash the message into the session cookie,
  which is no part of the state here. \<open>db.moderatedChannel.delete\<close> removes the row
  with the id; its foreign-key cascade finds no row left in the three tables emptied
  before it.
\<close>

definition action_settings ::
  "(form_value option \<Rightarrow> int option) \<Rightarrow> thrown + User \<Rightarrow> string option
     \<Rightarrow> (string \<Rightarrow> form_value option) \<Rightarrow> world \<Rightarrow> (thrown + reply) \<times> world" where
  "action_settings toNumber auth params_id rawData w =
     (if absent params_id then (Inl (InvariantFailed ''id is required''), w)
      else case auth of
        Inl e \<Rightarrow> (Inl e, w)
      | Inr user \<Rightarrow>
     (case requireUserCanModerateChannel (user_id user) (the params_id) w of
        Inl e \<Rightarrow> (Inl e, w)
      | Inr moderatedChannel' \<Rightarrow>
     (case parse_settings_form rawData of
        None \<Rightarrow> (Inr (ZodIssue 400), w)
      | Some intent \<Rightarrow>
          if intent = ''deleteChannel'' then
            (let w1 = w\<lparr>comods :=
                         filter (\<lambda>r. comod_channelId r \<noteq> mc_id moderatedChannel') (comods w)\<rparr>;
                 w2 = w1\<lparr>moderationLog :=
                         filter (\<lambda>r. ml_channelId r \<noteq> mc_id moderatedChannel') (moderationLog w1)\<rparr>;
                 w3 = w2\<lparr>castLog :=
                         filter (\<lambda>r. cl_channelId r \<noteq> mc_id moderatedChannel') (castLog w2)\<rparr>;
                 w4 = w3\<lparr>moderatedChannel :=
                         filter (\<lambda>r. mc_id r \<noteq> mc_id moderatedChannel') (moderatedChannel w3)\<rparr>
             in (Inr (Json ''Channel removed'' 200), w4))
          else if intent = ''updateBannedListSetting'' then
            (case toNumber (rawData ''followBannedList'') of
               None \<Rightarrow> (Inl NotANumber, w)
             | Some n \<Rightarrow>
                 (Inr (Json ''Updated'' 200),
                  w\<lparr>moderatedChannel :=
                       map (\<lambda>r. if mc_id r = mc_id moderatedChannel'
                                 then r\<lparr>disableBannedList := n\<rparr> else r)
                           (moderatedChannel w)\<rparr>))
          else (Inr (Json ''Invalid intent'' 400), w))))"

section \<open>Example states\<close>

text \<open>
  A channel \<open>c1\<close> led by \<open>u1\<close> with the comod \<open>u2\<close>, two log entries about the user
  with fid 7 (a cooldown, and a hidden cast), and that user's cooldown, already ended.
\<close>

definition alice :: User where
  "alice = \<lparr>user_id = ''u1'', user_name = ''alice''\<rparr>"

definition mallory :: User where
  "mallory = \<lparr>user_id = ''u9'', user_name = ''mallory''\<rparr>"

definition channel1 :: ModeratedChannel where
  "channel1 = \<lparr>mc_id = ''c1'', mc_userId = ''u1'', disableBannedList = 0\<rparr>"

definition cooldown_log :: ModerationLog where
  "cooldown_log =
     \<lparr>ml_id = ''l1'', ml_action = ''cooldown'', affectedUserFid = ''7'',
      affectedUsername = ''bob'', affectedUserAvatarUrl = None, actor = ''u1'',
      ml_channelId = ''c1'', reason = ''rule'', castHash = None, castText = None,
      createdAt = 1\<rparr>"

definition hide_log :: ModerationLog where
  "hide_log =
     \<lparr>ml_id = ''l2'', ml_action = ''hideQuietly'', affectedUserFid = ''7'',
      affectedUsername = ''bob'', affectedUserAvatarUrl = None, actor = ''u1'',
      ml_channelId = ''c1'', reason = ''rule'', castHash = Some ''0xabc'', castText = None,
      createdAt = 2\<rparr>"

definition world1 :: world where
  "world1 =
     \<lparr>moderatedChannel = [channel1],
      comods = [\<lparr>comod_fid = ''u2'', comod_channelId = ''c1''\<rparr>],
      moderationLog = [cooldown_log, hide_log],
      castLog = [],
      cooldown = [\<lparr>affectedUserId = ''7'', cd_channelId = ''c1'', active = False\<rparr>],
      unhideCalls = []\<rparr>"

definition form_of :: "string \<Rightarrow> string \<Rightarrow> string \<Rightarrow> form_value option" where
  "form_of logId intent = map_of [(''logId'', Text logId), (''intent'', Text intent)]"

text \<open>
  The same with a second channel \<open>c2\<close>, led by \<open>u5\<close> with the comod \<open>u1\<close>, and rows of
  both channels in every table.
\<close>

definition other_log :: ModerationLog where
  "other_log =
     \<lparr>ml_id = ''l3'', ml_action = ''mute'', affectedUserFid = ''8'',
      affectedUsername = ''carol'', affectedUserAvatarUrl = None, actor = ''u5'',
      ml_channelId = ''c2'', reason = ''rule'', castHash = None, castText = None,
      createdAt = 3\<rparr>"

definition world2 :: world where
  "world2 =
     \<lparr>moderatedChannel =
        [channel1, \<lparr>mc_id = ''c2'', mc_userId = ''u5'', disableBannedList = 0\<rparr>],
      comods = [\<lparr>comod_fid = ''u2'', comod_channelId = ''c1''\<rparr>,
                \<lparr>comod_fid = ''u1'', comod_channelId = ''c2''\<rparr>],
      moderationLog = [cooldown_log, other_log, hide_log],
      castLog = [\<lparr>hash = ''0xabc'', replyCount = 0, cl_createdAt = 2, cl_updatedAt = 2,
                  cl_status = ''hidden'', cl_channelId = ''c1''\<rparr>,
                 \<lparr>hash = ''0xdef'', replyCount = 1, cl_createdAt = 3, cl_updatedAt = 3,
                  cl_status = ''active'', cl_channelId = ''c2''\<rparr>],
      cooldown = [],
      unhideCalls = []\<rparr>"

definition settings_form :: "string \<Rightarrow> string \<Rightarrow> form_value option" where
  "settings_form intent = map_of [(''intent'', Text intent)]"

text \<open>
  Channel \<open>c1\<close> with 120 log entries, created at the times 0 to 119, beside one entry
  of another channel; and a query string with both parameters.
\<close>

definition numbered_log :: "nat \<Rightarrow> ModerationLog" where
  "numbered_log i =
     \<lparr>ml_id = string_of_nat i, ml_action = ''mute'', affectedUserFid = ''7'',
      affectedUsername = ''bob'', affectedUserAvatarUrl = None, actor = ''u1'',
      ml_channelId = ''c1'', reason = ''rule'', castHash = None, castText = None,
      createdAt = int i\<rparr>"

definition world120 :: world where
  "world120 =
     \<lparr>moderatedChannel = [channel1], comods = [],
      moderationLog =
        \<lparr>ml_id = ''x'', ml_action = ''mute'', affectedUserFid = ''8'',
         affectedUsername = ''carol'', affectedUserAvatarUrl = None, actor = ''u5'',
         ml_channelId = ''c2'', reason = ''rule'', castHash = None, castText = None,
         createdAt = 3\<rparr> # map numbered_log [0..<120],
      castLog = [], cooldown = [], unhideCalls = []\<rparr>"

definition query :: "string \<Rightarrow> string \<Rightarrow> string \<Rightarrow> string option" where
  "query p ps = map_of [(''page'', p), (''pageSize'', ps)]"

text \<open>
  A chain on which every read fails. Of \<open>getAddress\<close> it keeps the addresses written
  as \<open>0x\<close> and 40 decimal digits, which are well formed and are their own checksummed
  form; the examples hand it no other address.
\<close>

definition digits_address :: "string \<Rightarrow> bool" where
  "digits_address a \<longleftrightarrow>
     take 2 a = ''0x'' \<and> length a = 42 \<and> list_all (\<lambda>c. c \<in> set ''0123456789'') (drop 2 a)"

definition failing_chain :: chain where
  "failing_chain =
     \<lparr>getAddress = (\<lambda>a. if digits_address a then Some a else None),
      hasClient = (\<lambda>c. True),
      supportsInterface = (\<lambda>c a i. ReadFailed),
      allowance = (\<lambda>c a. ReadFailed)\<rparr>"

section \<open>Properties of the webhook check\<close>

lemma seconds_text: "string_of_nat (maxTimeout div 1000) = ''5''"
  by (simp add: maxTimeout_def string_of_nat.simps digit_char_def)

lemma catch_handler_message:
  "message (catch_handler failureMode err) \<noteq> [] \<and>
   length (message (catch_handler failureMode err)) \<le> 75"
  by (simp add: catch_handler_def seconds_text)

lemma then_handler_message:
  assumes "then_handler response = Inr r"
  shows "message r \<noteq> [] \<and> length (message r) \<le> 75"
proof (cases "data_message (data response)")
  case (Inl e)
  with assms show ?thesis by (simp add: then_handler_def)
next
  case (Inr m)
  note m = this
  show ?thesis
  proof (cases "opt_substring m")
    case (Inl e)
    with m assms show ?thesis by (simp add: then_handler_def)
  next
    case (Inr message0)
    have len: "\<And>s. message0 = Some s \<Longrightarrow> length s \<le> 75"
      using Inr by (cases m) auto
    show ?thesis
    proof (cases message0)
      case None
      with m Inr assms show ?thesis
        by (auto simp: then_handler_def split: if_splits)
    next
      case (Some s)
      with m Inr assms len [OF Some] show ?thesis
        by (auto simp: then_handler_def split: if_splits)
    qed
  qed
qed

lemma webhook_rejected:
  "axios_post refused t = Inl err \<Longrightarrow>
   webhook refused failureMode t = catch_handler failureMode err"
  by (simp add: webhook_def)

text \<open>
  On a body of the documented shape the success branch does what the rule's description
  says: the result is whether the status is 200, and the message is the body's message
  cut at 75 code units, or the default of the status when the body gives none.
\<close>

lemma webhook_accepted_wellformed:
  assumes "validateStatus (status r)"
      and "data_message (data r) = Inr m"
      and "string_or_missing m"
  shows "webhook refused failureMode (Replied r) =
           \<lparr>result = (status r = 200),
            message =
              (case m of
                 JStr s \<Rightarrow>
                   if s = [] then (if status r = 200 then ''Webhook rule triggered''
                                   else ''Webhook rule did not trigger'')
                   else take 75 s
               | _ \<Rightarrow> (if status r = 200 then ''Webhook rule triggered''
                        else ''Webhook rule did not trigger''))\<rparr>"
  using assms
  by (cases m) (simp_all add: webhook_def axios_post_def then_handler_def)

text \<open>
  C7. Every \<open>CheckResult\<close> the webhook check returns, whatever the network outcome, the
  body and the failure mode, has a non-empty message of at most 75 code units; the
  function is total, so nothing is thrown. A non-empty message of the body of an accepted
  reply is cut to its first 75 code units, whatever its length, and the call still
  answers with the result of the status.
\<close>

theorem webhook_message_bounded:
  "message (webhook refused failureMode t) \<noteq> [] \<and>
   length (message (webhook refused failureMode t)) \<le> 75 \<and>
   (validateStatus (status r) \<and> data_message (data r) = Inr (JStr s) \<and> s \<noteq> [] \<longrightarrow>
      webhook refused failureMode (Replied r)
        = \<lparr>result = (status r = 200), message = take 75 s\<rparr>)"
proof -
  have bounded:
    "message (webhook refused failureMode t) \<noteq> [] \<and>
     length (message (webhook refused failureMode t)) \<le> 75"
  proof (cases "axios_post refused t")
    case (Inl err)
    then show ?thesis
      using catch_handler_message [of failureMode err] by (simp add: webhook_def)
  next
    case (Inr response)
    note resp = this
    show ?thesis
    proof (cases "then_handler response")
      case (Inl err)
      with resp show ?thesis
        using catch_handler_message [of failureMode err] by (simp add: webhook_def)
    next
      case (Inr r')
      with resp show ?thesis
        using then_handler_message [OF Inr] by (simp add: webhook_def)
    qed
  qed
  have truncated:
    "webhook refused failureMode (Replied r)
       = \<lparr>result = (status r = 200), message = take 75 s\<rparr>"
    if "validateStatus (status r)" "data_message (data r) = Inr (JStr s)" "s \<noteq> []"
    using webhook_accepted_wellformed [OF that(1,2), of refused failureMode] that(3)
    by simp
  show ?thesis using bounded truncated by blast
qed

theorem webhook_message_bounded_witness:
  "webhook (\<lambda>r. TypeError) JNull
       (Replied \<lparr>status = 200,
                 data = JObj [(''message'', JStr (replicate 80 (CHR ''a'')))]\<rparr>)
     = \<lparr>result = True, message = replicate 75 (CHR ''a'')\<rparr>
   \<and> length (replicate 80 (CHR ''a'')) = 80
   \<and> webhook (\<lambda>r. TypeError) JNull
       (Replied \<lparr>status = 400, data = JObj [(''message'', JStr ''no'')]\<rparr>)
     = \<lparr>result = False, message = ''no''\<rparr>"
proof -
  have v: "validateStatus (status \<lparr>status = 200,
             data = JObj [(''message'', JStr (replicate 80 (CHR ''a'')))]\<rparr>)"
    "validateStatus (status \<lparr>status = 400, data = JObj [(''message'', JStr ''no'')]\<rparr>)"
    by (simp_all add: validateStatus_def)
  have m: "data_message (data \<lparr>status = 200,
             data = JObj [(''message'', JStr (replicate 80 (CHR ''a'')))]\<rparr>)
             = Inr (JStr (replicate 80 (CHR ''a'')))"
    "data_message (data \<lparr>status = 400, data = JObj [(''message'', JStr ''no'')]\<rparr>)
       = Inr (JStr ''no'')"
    by simp_all
  have n: "replicate 80 (CHR ''a'') \<noteq> []" "''no'' \<noteq> []"
    by simp_all
  note long = webhook_message_bounded
    [where r = "\<lparr>status = 200,
                  data = JObj [(''message'', JStr (replicate 80 (CHR ''a'')))]\<rparr>"
       and s = "replicate 80 (CHR ''a'')" and refused = "\<lambda>r. TypeError"
       and failureMode = JNull]
  note short = webhook_message_bounded
    [where r = "\<lparr>status = 400, data = JObj [(''message'', JStr ''no'')]\<rparr>"
       and s = "''no''" and refused = "\<lambda>r. TypeError" and failureMode = JNull]
  have a: "webhook (\<lambda>r. TypeError) JNull
       (Replied \<lparr>status = 200,
                 data = JObj [(''message'', JStr (replicate 80 (CHR ''a'')))]\<rparr>)
     = \<lparr>result = True, message = replicate 75 (CHR ''a'')\<rparr>"
    using long v(1) m(1) n(1) by simp
  have b: "webhook (\<lambda>r. TypeError) JNull
       (Replied \<lparr>status = 400, data = JObj [(''message'', JStr ''no'')]\<rparr>)
     = \<lparr>result = False, message = ''no''\<rparr>"
    using short v(2) m(2) n(2) by simp
  show ?thesis using a b by simp
qed

text \<open>
  C1, at the input where the code leaves it. A reply with status 200 whose body is
  \<open>{"message": 42}\<close> is accepted by \<open>validateStatus\<close>; \<open>substring\<close> is not a function of a
  number, the \<open>.then\<close> callback throws, and the \<open>.catch\<close> callback answers with the
  failure mode: with \<open>doNotTrigger\<close> the result is \<open>false\<close> and the message is the one of
  a failed webhook, neither \<open>true\<close> nor the default message of a 200.
\<close>

theorem webhook_200_nonstring_message:
  "validateStatus 200 \<and>
   webhook refused (JStr ''doNotTrigger'')
       (Replied \<lparr>status = 200, data = JObj [(''message'', JNum 42)]\<rparr>)
     = \<lparr>result = False,
        message = ''Webhook failed and rule is set to not trigger on failure''\<rparr>"
  by (simp add: webhook_def axios_post_def validateStatus_def then_handler_def
        catch_handler_def)

text \<open>
  C3. When the request is rejected (no reply, a timeout, or a status that
  \<open>validateStatus\<close> refuses), the webhook check returns a result and throws nothing: the
  result is \<open>true\<close> exactly when the failure mode is the string \<open>trigger\<close>, so \<open>false\<close> for
  \<open>doNotTrigger\<close>; the message is the timeout text when the error code is
  \<open>ECONNABORTED\<close> and the generic failure text otherwise, and each text names the mode.
\<close>

theorem webhook_error_applies_failure_mode:
  assumes "axios_post refused t = Inl err"
  shows "webhook refused failureMode t =
           (if code err = Some ''ECONNABORTED'' then
              (if failureMode = JStr ''trigger''
               then \<lparr>result = True,
                     message = ''Webhook didn't respond within 5s, rule is set to trigger on failure''\<rparr>
               else \<lparr>result = False,
                     message = ''Webhook did not respond within 5s, rule is set to not trigger on failure. ''\<rparr>)
            else
              (if failureMode = JStr ''trigger''
               then \<lparr>result = True,
                     message = ''Webhook failed but rule is set to trigger on failure''\<rparr>
               else \<lparr>result = False,
                     message = ''Webhook failed and rule is set to not trigger on failure''\<rparr>))
         \<and> sublist (if failureMode = JStr ''trigger'' then ''set to trigger on failure''
                    else ''set to not trigger on failure'')
                   (message (webhook refused failureMode t))"
proof -
  have w: "webhook refused failureMode t = catch_handler failureMode err"
    using assms by (rule webhook_rejected)
  have s1: "sublist ''set to trigger on failure''
              ''Webhook didn't respond within 5s, rule is set to trigger on failure''"
    by code_simp
  have s2: "sublist ''set to not trigger on failure''
              ''Webhook did not respond within 5s, rule is set to not trigger on failure. ''"
    by code_simp
  have s3: "sublist ''set to trigger on failure''
              ''Webhook failed but rule is set to trigger on failure''"
    by code_simp
  have s4: "sublist ''set to not trigger on failure''
              ''Webhook failed and rule is set to not trigger on failure''"
    by code_simp
  show ?thesis
    unfolding w using s1 s2 s3 s4 by (simp add: catch_handler_def seconds_text)
qed

theorem webhook_error_applies_failure_mode_witness:
  "webhook (\<lambda>r. AxiosError None) (JStr ''trigger'')
       (NoReply (AxiosError (Some ''ECONNABORTED'')))
     = \<lparr>result = True,
        message = ''Webhook didn't respond within 5s, rule is set to trigger on failure''\<rparr>
   \<and> webhook (\<lambda>r. AxiosError None) (JStr ''doNotTrigger'')
       (NoReply (AxiosError (Some ''ECONNRESET'')))
     = \<lparr>result = False,
        message = ''Webhook failed and rule is set to not trigger on failure''\<rparr>
   \<and> webhook (\<lambda>r. AxiosError None) (JStr ''doNotTrigger'')
       (Replied \<lparr>status = 500, data = JStr ''oops''\<rparr>)
     = \<lparr>result = False,
        message = ''Webhook failed and rule is set to not trigger on failure''\<rparr>"
proof -
  have a: "axios_post (\<lambda>r. AxiosError None) (NoReply (AxiosError (Some ''ECONNABORTED'')))
             = Inl (AxiosError (Some ''ECONNABORTED''))"
    by (simp add: axios_post_def)
  have b: "axios_post (\<lambda>r. AxiosError None) (NoReply (AxiosError (Some ''ECONNRESET'')))
             = Inl (AxiosError (Some ''ECONNRESET''))"
    by (simp add: axios_post_def)
  have c: "axios_post (\<lambda>r. AxiosError None) (Replied \<lparr>status = 500, data = JStr ''oops''\<rparr>)
             = Inl (AxiosError None)"
    by (simp add: axios_post_def validateStatus_def)
  show ?thesis
    using webhook_error_applies_failure_mode [OF a, of "JStr ''trigger''"]
          webhook_error_applies_failure_mode [OF b, of "JStr ''doNotTrigger''"]
          webhook_error_applies_failure_mode [OF c, of "JStr ''doNotTrigger''"]
    by simp
qed

text \<open>
  C10, at the inputs where the code leaves it. The result is not a function of the
  status and of a request error alone: a reply with status 201 and the body \<open>null\<close> is
  accepted, the \<open>.then\<close> callback throws on reading \<open>message\<close> of \<open>null\<close>, and with the
  failure mode \<open>trigger\<close> the result is \<open>true\<close>; a reply with status 200 and the body
  \<open>{"message": true}\<close> gives \<open>false\<close> when no failure mode is configured.
\<close>

theorem webhook_result_not_status:
  "validateStatus 201 \<and>
   result (webhook refused (JStr ''trigger'')
             (Replied \<lparr>status = 201, data = JNull\<rparr>)) = True \<and>
   validateStatus 200 \<and>
   result (webhook refused JUndefined
             (Replied \<lparr>status = 200, data = JObj [(''message'', JBool True)]\<rparr>)) = False"
  by (simp add: webhook_def axios_post_def validateStatus_def then_handler_def
        catch_handler_def)

section \<open>Properties of the token-gating validators\<close>

text \<open>
  C8 as stated fails twice. With no \<open>chainId\<close> and the address of the deployers
  contract \<open>validateErc721\<close> returns \<open>true\<close>, because the special case comes before the
  test for absent inputs. On a chain where every read fails \<open>validateErc20\<close> returns
  \<open>true\<close> for the always-allowed contract, which it answers without reading.
\<close>

theorem validateErc721_special_case_counterexample:
  "absent None \<and>
   validateErc721 failing_chain None (Some ''0x8ce608ce2b5004397faef1556bfe33bdfbe4696d'') = Inr True \<and>
   allowance failing_chain ''8453'' ''0xa8a30E0dafCA4156f28d96cCa5671a0eEcA5E407'' = ReadFailed \<and>
   validateErc20 failing_chain (Some ''8453'') (Some ''0xa8a30E0dafCA4156f28d96cCa5671a0eEcA5E407'')
     = Inr True"
  by (simp add: validateErc721_def validateErc20_def alwaysAllow_def failing_chain_def)

text \<open>
  C8, amended. When \<open>chainId\<close> or \<open>contractAddress\<close> is absent, \<open>validateErc1155\<close> and
  \<open>validateErc20\<close> return \<open>false\<close>, and \<open>validateErc721\<close> returns \<open>false\<close> unless the
  address is the deployers contract. \<open>validateErc721\<close> returns \<open>true\<close> for the deployers
  contract and \<open>validateErc20\<close> for an always-allowed contract, both without reading the
  chain. When the contract read is reached (the address is well formed, the chain has a
  client, and the address is not one of those) and the read fails, each validator returns
  \<open>false\<close> and throws nothing.
\<close>

theorem validators_false_on_failure:
  "(absent chainId \<or> absent contractAddress \<longrightarrow>
      validateErc1155 ch chainId contractAddress = Inr False
    \<and> validateErc20 ch chainId contractAddress = Inr False
    \<and> validateErc721 ch chainId contractAddress = Inr (deployers721 contractAddress))
 \<and> (deployers721 contractAddress \<longrightarrow> validateErc721 ch chainId contractAddress = Inr True)
 \<and> (c \<noteq> [] \<and> a \<noteq> [] \<and> toLowerCase a \<in> set alwaysAllow \<longrightarrow>
      validateErc20 ch (Some c) (Some a) = Inr True)
 \<and> (getAddress ch a = Some address \<and> hasClient ch c \<and> a \<noteq> [] \<and> c \<noteq> [] \<longrightarrow>
      (supportsInterface ch c address ''0xd9b67a26'' = ReadFailed \<longrightarrow>
         validateErc1155 ch (Some c) (Some a) = Inr False)
    \<and> (supportsInterface ch c address ''0x80ac58cd'' = ReadFailed \<and> \<not> deployers721 (Some a) \<longrightarrow>
         validateErc721 ch (Some c) (Some a) = Inr False)
    \<and> (allowance ch c address = ReadFailed \<and> toLowerCase a \<notin> set alwaysAllow \<longrightarrow>
         validateErc20 ch (Some c) (Some a) = Inr False))"
  by (auto simp: validateErc1155_def validateErc721_def validateErc20_def deployers721_def)

theorem validators_false_on_failure_witness:
  "validateErc1155 failing_chain None (Some ''0x1111111111111111111111111111111111111111'') = Inr False
 \<and> validateErc20 failing_chain (Some ''1'') None = Inr False
 \<and> validateErc721 failing_chain None (Some ''0x1111111111111111111111111111111111111111'') = Inr False
 \<and> getAddress failing_chain ''0x1111111111111111111111111111111111111111'' = Some ''0x1111111111111111111111111111111111111111''
 \<and> validateErc1155 failing_chain (Some ''1'') (Some ''0x1111111111111111111111111111111111111111'') = Inr False
 \<and> validateErc721 failing_chain (Some ''1'') (Some ''0x1111111111111111111111111111111111111111'') = Inr False
 \<and> validateErc20 failing_chain (Some ''1'') (Some ''0x1111111111111111111111111111111111111111'') = Inr False"
proof -
  have d: "\<not> deployers721 (Some ''0x1111111111111111111111111111111111111111'')"
    by (simp add: deployers721_def toLowerCase_def lower_char_def)
  have l: "toLowerCase ''0x1111111111111111111111111111111111111111'' \<notin> set alwaysAllow"
    by (simp add: alwaysAllow_def toLowerCase_def lower_char_def)
  have w: "digits_address ''0x1111111111111111111111111111111111111111''"
    by (simp add: digits_address_def)
  have g: "getAddress failing_chain ''0x1111111111111111111111111111111111111111'' = Some ''0x1111111111111111111111111111111111111111'' \<and> hasClient failing_chain ''1''
           \<and> ''0x1111111111111111111111111111111111111111'' \<noteq> [] \<and> ''1'' \<noteq> []"
    using w by (simp add: failing_chain_def)
  have r: "supportsInterface failing_chain ''1'' ''0x1111111111111111111111111111111111111111'' ''0xd9b67a26'' = ReadFailed"
    "supportsInterface failing_chain ''1'' ''0x1111111111111111111111111111111111111111'' ''0x80ac58cd'' = ReadFailed"
    "allowance failing_chain ''1'' ''0x1111111111111111111111111111111111111111'' = ReadFailed"
    by (simp_all add: failing_chain_def)
  note no_chain_id = validators_false_on_failure
    [where chainId = None and contractAddress = "Some ''0x1111111111111111111111111111111111111111''" and ch = failing_chain
       and a = "''0x1111111111111111111111111111111111111111''" and address = "''0x1111111111111111111111111111111111111111''" and c = "''1''"]
  note no_address = validators_false_on_failure
    [where chainId = "Some ''1''" and contractAddress = None and ch = failing_chain]
  have absent_inputs:
    "validateErc1155 failing_chain None (Some ''0x1111111111111111111111111111111111111111'') = Inr False
   \<and> validateErc20 failing_chain (Some ''1'') None = Inr False
   \<and> validateErc721 failing_chain None (Some ''0x1111111111111111111111111111111111111111'') = Inr False"
    using no_chain_id no_address d by simp
  have failed_reads:
    "validateErc1155 failing_chain (Some ''1'') (Some ''0x1111111111111111111111111111111111111111'') = Inr False
   \<and> validateErc721 failing_chain (Some ''1'') (Some ''0x1111111111111111111111111111111111111111'') = Inr False
   \<and> validateErc20 failing_chain (Some ''1'') (Some ''0x1111111111111111111111111111111111111111'') = Inr False"
    using no_chain_id d l g r by blast
  show ?thesis using absent_inputs failed_reads g by blast
qed

section \<open>Properties of the manual actions\<close>

lemma world1_alice: "requireUserCanModerateChannel ''u1'' ''c1'' world1 = Inr channel1"
  by (simp add: requireUserCanModerateChannel_def canUserModerateChannel_def world1_def channel1_def)

text \<open>
  C2, at the input where the code leaves it. In \<open>world1\<close> the cooldown of user 7 in
  channel \<open>c1\<close> is already inactive. The lead ends the cooldown twice: each call finds
  the row, \<open>update\<close> returns it, \<open>if (updated)\<close> holds, and a \<open>cooldownEnded\<close> entry is
  appended, so the log ends with two of them although no active cooldown was changed.
\<close>

theorem end_cooldown_twice_logs_twice:
  "list_all (\<lambda>c. \<not> active c) (cooldown world1) \<and>
   map ml_action
     (moderationLog
        (snd (action_logs api ''n2'' 6 (Inr alice) (Some ''c1'') (form_of ''l1'' ''end-cooldown'')
          (snd (action_logs api ''n1'' 5 (Inr alice) (Some ''c1'') (form_of ''l1'' ''end-cooldown'')
             world1)))))
     = [''cooldown'', ''hideQuietly'', ''cooldownEnded'', ''cooldownEnded'']"
  by (simp add: action_logs_def requireUserCanModerateChannel_def canUserModerateChannel_def
        world1_def channel1_def alice_def form_of_def parse_log_form_def cooldown_log_def
        hide_log_def cooldown_update_def row_truthy_def moderationLog_create_def)


lemma can_moderate_iff:
  "mod_result (canUserModerateChannel userId channelId w) \<longleftrightarrow>
     (\<exists>c \<in> set (moderatedChannel w). mc_id c = channelId \<and>
        (mc_userId c = userId \<or>
         (\<exists>m \<in> set (comods w). comod_channelId m = channelId \<and> comod_fid m = userId)))"
proof -
  let ?P = "\<lambda>c. mc_id c = channelId \<and>
                 ((\<exists>m \<in> set (comods w). comod_channelId m = mc_id c \<and> comod_fid m = userId)
                  \<or> mc_userId c = userId)"
  have "mod_result (canUserModerateChannel userId channelId w)
          \<longleftrightarrow> find ?P (moderatedChannel w) \<noteq> None"
    by (simp add: canUserModerateChannel_def split: option.splits)
  also have "\<dots> \<longleftrightarrow> (\<exists>c. c \<in> set (moderatedChannel w) \<and> ?P c)"
    by (simp only: find_None_iff not_not)
  also have "\<dots> \<longleftrightarrow> (\<exists>c \<in> set (moderatedChannel w). mc_id c = channelId \<and>
        (mc_userId c = userId \<or>
         (\<exists>m \<in> set (comods w). comod_channelId m = channelId \<and> comod_fid m = userId)))"
    by auto
  finally show ?thesis .
qed

lemma can_moderate_channel:
  "mod_channel (canUserModerateChannel userId channelId w) =
     (if mod_result (canUserModerateChannel userId channelId w)
      then find (\<lambda>c. mc_id c = channelId \<and>
                     ((\<exists>m \<in> set (comods w). comod_channelId m = mc_id c \<and> comod_fid m = userId)
                      \<or> mc_userId c = userId)) (moderatedChannel w)
      else None)"
  by (simp add: canUserModerateChannel_def split: option.splits)

lemma can_moderate_channel_id:
  assumes "mod_channel (canUserModerateChannel userId channelId w) = Some c"
  shows "c \<in> set (moderatedChannel w) \<and> mc_id c = channelId \<and>
         mod_result (canUserModerateChannel userId channelId w)"
  using assms
  by (auto simp: canUserModerateChannel_def find_Some_iff split: option.splits)

lemma require_iff:
  "requireUserCanModerateChannel userId channelId w = Inr c \<longleftrightarrow>
     mod_channel (canUserModerateChannel userId channelId w) = Some c"
  by (auto simp: requireUserCanModerateChannel_def canUserModerateChannel_def Let_def
           split: option.splits)

lemma require_denied:
  "\<not> mod_result (canUserModerateChannel userId channelId w) \<Longrightarrow>
   requireUserCanModerateChannel userId channelId w = Inl (Redirect ''/'' 403)"
  by (simp add: requireUserCanModerateChannel_def Let_def)

lemma action_logs_denied:
  assumes "\<not> mod_result (canUserModerateChannel (user_id user) channelId w)"
      and "channelId \<noteq> []"
  shows "action_logs api newId now (Inr user) (Some channelId) rawData w
           = (Inl (Redirect ''/'' 403), w)"
  using assms by (simp add: action_logs_def require_denied)

lemma action_logs_changes_only_for_moderator:
  assumes "snd (action_logs api newId now auth params_id rawData w) \<noteq> w"
  shows "\<exists>user. auth = Inr user \<and>
           mod_result (canUserModerateChannel (user_id user) (the params_id) w)"
proof (cases auth)
  case (Inl e)
  with assms show ?thesis by (simp add: action_logs_def)
next
  case (Inr user)
  show ?thesis
  proof (cases "requireUserCanModerateChannel (user_id user) (the params_id) w")
    case (Inl e)
    with Inr assms show ?thesis by (simp add: action_logs_def)
  next
    case (Inr c)
    then have "mod_result (canUserModerateChannel (user_id user) (the params_id) w)"
      using can_moderate_channel_id by (simp add: require_iff)
    with \<open>auth = Inr user\<close> show ?thesis by simp
  qed
qed


text \<open>
  C6. \<open>canUserModerateChannel\<close> answers \<open>result: true\<close> exactly when the channel exists
  and the user is its lead or one of its comods, then with that channel, and
  \<open>result: false\<close> with no channel otherwise. The action of the moderation log route
  answers an actor who cannot moderate the channel with the redirect of status 403 and
  leaves the state as it was; whenever it changes the state (a cooldown, a log entry, a
  call of the unhide API), the actor is signed in and can moderate the channel.
\<close>

theorem manual_actions_require_moderator:
  "(mod_result (canUserModerateChannel userId channelId w) \<longleftrightarrow>
      (\<exists>c \<in> set (moderatedChannel w). mc_id c = channelId \<and>
         (mc_userId c = userId \<or>
          (\<exists>m \<in> set (comods w). comod_channelId m = channelId \<and> comod_fid m = userId))))
 \<and> (mod_result (canUserModerateChannel userId channelId w) \<longrightarrow>
      (\<exists>c \<in> set (moderatedChannel w).
         mod_channel (canUserModerateChannel userId channelId w) = Some c \<and> mc_id c = channelId))
 \<and> (\<not> mod_result (canUserModerateChannel userId channelId w) \<longrightarrow>
      mod_channel (canUserModerateChannel userId channelId w) = None)
 \<and> (\<not> mod_result (canUserModerateChannel (user_id user) channelId w) \<and> channelId \<noteq> [] \<longrightarrow>
      action_logs api newId now (Inr user) (Some channelId) rawData w
        = (Inl (Redirect ''/'' 403), w))
 \<and> (snd (action_logs api newId now auth params_id rawData w) \<noteq> w \<longrightarrow>
      (\<exists>actor. auth = Inr actor \<and>
         mod_result (canUserModerateChannel (user_id actor) (the params_id) w)))"
proof -
  have channel_given:
    "\<exists>c \<in> set (moderatedChannel w).
       mod_channel (canUserModerateChannel userId channelId w) = Some c \<and> mc_id c = channelId"
    if "mod_result (canUserModerateChannel userId channelId w)"
  proof -
    from that obtain c where "mod_channel (canUserModerateChannel userId channelId w) = Some c"
      by (auto simp: canUserModerateChannel_def split: option.splits)
    then show ?thesis using can_moderate_channel_id by blast
  qed
  have no_channel: "mod_channel (canUserModerateChannel userId channelId w) = None"
    if "\<not> mod_result (canUserModerateChannel userId channelId w)"
    using that by (simp add: can_moderate_channel)
  show ?thesis
    using can_moderate_iff [of userId channelId w] channel_given no_channel
      action_logs_denied [of user channelId w api newId now rawData]
      action_logs_changes_only_for_moderator [of api newId now auth params_id rawData w]
    by blast
qed

theorem manual_actions_require_moderator_witness:
  "\<not> mod_result (canUserModerateChannel ''u9'' ''c1'' world1)
 \<and> mod_channel (canUserModerateChannel ''u9'' ''c1'' world1) = None
 \<and> action_logs (\<lambda>h. None) ''n1'' 5 (Inr mallory) (Some ''c1'') (form_of ''l1'' ''end-cooldown'') world1
      = (Inl (Redirect ''/'' 403), world1)
 \<and> mod_result (canUserModerateChannel ''u2'' ''c1'' world1)
 \<and> mod_channel (canUserModerateChannel ''u2'' ''c1'' world1) = Some channel1"
proof -
  have comod: "\<exists>c \<in> set (moderatedChannel world1). mc_id c = ''c1'' \<and>
         (mc_userId c = ''u2'' \<or>
          (\<exists>m \<in> set (comods world1). comod_channelId m = ''c1'' \<and> comod_fid m = ''u2''))"
    by (simp add: world1_def channel1_def)
  have stranger: "\<not> (\<exists>c \<in> set (moderatedChannel world1). mc_id c = ''c1'' \<and>
         (mc_userId c = ''u9'' \<or>
          (\<exists>m \<in> set (comods world1). comod_channelId m = ''c1'' \<and> comod_fid m = ''u9'')))"
    by (simp add: world1_def channel1_def)
  have only: "set (moderatedChannel world1) = {channel1}"
    by (simp add: world1_def)
  have id9: "user_id mallory = ''u9''"
    by (simp add: mallory_def)
  note denied = manual_actions_require_moderator
            [where userId = "''u9''" and channelId = "''c1''" and w = world1 and user = mallory
               and api = "\<lambda>h. None" and newId = "''n1''" and now = 5
               and rawData = "form_of ''l1'' ''end-cooldown''"]
  note granted = manual_actions_require_moderator
            [where userId = "''u2''" and channelId = "''c1''" and w = world1]
  have d1: "\<not> mod_result (canUserModerateChannel ''u9'' ''c1'' world1)"
    using denied stranger by blast
  have d2: "mod_channel (canUserModerateChannel ''u9'' ''c1'' world1) = None"
    using denied d1 by blast
  have d3: "action_logs (\<lambda>h. None) ''n1'' 5 (Inr mallory) (Some ''c1'')
              (form_of ''l1'' ''end-cooldown'') world1 = (Inl (Redirect ''/'' 403), world1)"
    using denied d1 id9 by simp
  have g1: "mod_result (canUserModerateChannel ''u2'' ''c1'' world1)"
    using granted comod by blast
  have g2: "mod_channel (canUserModerateChannel ''u2'' ''c1'' world1) = Some channel1"
    using granted g1 only by auto
  show ?thesis using d1 d2 d3 g1 g2 by simp
qed

lemma action_logs_unhide:
  assumes "\<not> absent params_id"
      and "requireUserCanModerateChannel (user_id user) (the params_id) w = Inr channel"
      and "parse_log_form rawData = Some (logId, ''unhide'')"
      and "find (\<lambda>l. ml_id l = logId) (moderationLog w) = Some log'"
  shows "action_logs api newId now (Inr user) params_id rawData w =
           (if absent (castHash log') then (Inl (InvariantFailed ''castHash is required''), w)
            else
              (case api (the (castHash log')) of
                 Some e \<Rightarrow> (Inl e, w\<lparr>unhideCalls := unhideCalls w @ [the (castHash log')]\<rparr>)
               | None \<Rightarrow>
                   (Inr (Json ''success'' 200),
                    moderationLog_create newId now ''unhide'' log' user channel
                      (''Unhidden by @'' @ user_name user)
                      (w\<lparr>unhideCalls := unhideCalls w @ [the (castHash log')]\<rparr>))))"
  using assms by (simp add: action_logs_def unhide_def split: option.splits)

text \<open>
  C4. For a moderator of the channel whose form names an existing log entry and the
  intent \<open>unhide\<close>: when the entry has no cast hash the action throws and the state is
  unchanged; when it has one and the external unhide call fails, that failure is thrown
  to the caller and the moderation log is unchanged; when the call succeeds the answer
  is \<open>success\<close> and exactly one entry with the action \<open>unhide\<close> is appended. So an
  entry is written only with a cast hash and after a successful external call.
\<close>

theorem unhide_requires_hash_and_success:
  assumes "\<not> absent params_id"
      and "requireUserCanModerateChannel (user_id user) (the params_id) w = Inr channel"
      and "parse_log_form rawData = Some (logId, ''unhide'')"
      and "find (\<lambda>l. ml_id l = logId) (moderationLog w) = Some log'"
  shows "(absent (castHash log') \<longrightarrow>
            action_logs api newId now (Inr user) params_id rawData w
              = (Inl (InvariantFailed ''castHash is required''), w))
       \<and> (\<not> absent (castHash log') \<and> api (the (castHash log')) = Some e \<longrightarrow>
            fst (action_logs api newId now (Inr user) params_id rawData w) = Inl e
          \<and> moderationLog (snd (action_logs api newId now (Inr user) params_id rawData w))
              = moderationLog w)
       \<and> (\<not> absent (castHash log') \<and> api (the (castHash log')) = None \<longrightarrow>
            fst (action_logs api newId now (Inr user) params_id rawData w)
              = Inr (Json ''success'' 200)
          \<and> unhideCalls (snd (action_logs api newId now (Inr user) params_id rawData w))
              = unhideCalls w @ [the (castHash log')]
          \<and> moderationLog (snd (action_logs api newId now (Inr user) params_id rawData w))
              = moderationLog w @
                 [\<lparr>ml_id = newId, ml_action = ''unhide'',
                   affectedUserFid = affectedUserFid log',
                   affectedUsername = affectedUsername log',
                   affectedUserAvatarUrl = affectedUserAvatarUrl log',
                   actor = user_id user, ml_channelId = mc_id channel,
                   reason = ''Unhidden by @'' @ user_name user,
                   castHash = None, castText = None, createdAt = now\<rparr>])
       \<and> (moderationLog (snd (action_logs api newId now (Inr user) params_id rawData w))
              \<noteq> moderationLog w \<longrightarrow>
            \<not> absent (castHash log') \<and> api (the (castHash log')) = None)"
  unfolding action_logs_unhide [OF assms]
  by (auto simp: moderationLog_create_def split: option.splits)

theorem unhide_requires_hash_and_success_witness:
  "action_logs (\<lambda>h. None) ''n1'' 5 (Inr alice) (Some ''c1'') (form_of ''l1'' ''unhide'') world1
     = (Inl (InvariantFailed ''castHash is required''), world1)
 \<and> fst (action_logs (\<lambda>h. Some (UnhideFailed ''503'')) ''n1'' 5 (Inr alice) (Some ''c1'')
          (form_of ''l2'' ''unhide'') world1) = Inl (UnhideFailed ''503'')
 \<and> moderationLog (snd (action_logs (\<lambda>h. Some (UnhideFailed ''503'')) ''n1'' 5 (Inr alice)
          (Some ''c1'') (form_of ''l2'' ''unhide'') world1)) = [cooldown_log, hide_log]
 \<and> map ml_action (moderationLog (snd (action_logs (\<lambda>h. None) ''n1'' 5 (Inr alice)
          (Some ''c1'') (form_of ''l2'' ''unhide'') world1)))
      = [''cooldown'', ''hideQuietly'', ''unhide'']
 \<and> unhideCalls (snd (action_logs (\<lambda>h. None) ''n1'' 5 (Inr alice)
          (Some ''c1'') (form_of ''l2'' ''unhide'') world1)) = [''0xabc'']"
proof -
  have p: "\<not> absent (Some ''c1'')" by simp
  have a: "requireUserCanModerateChannel (user_id alice) (the (Some ''c1'')) world1 = Inr channel1"
    by (simp add: alice_def world1_alice)
  have f1: "parse_log_form (form_of ''l1'' ''unhide'') = Some (''l1'', ''unhide'')"
    by (simp add: parse_log_form_def form_of_def)
  have f2: "parse_log_form (form_of ''l2'' ''unhide'') = Some (''l2'', ''unhide'')"
    by (simp add: parse_log_form_def form_of_def)
  have l1: "find (\<lambda>l. ml_id l = ''l1'') (moderationLog world1) = Some cooldown_log"
    by (simp add: world1_def cooldown_log_def)
  have l2: "find (\<lambda>l. ml_id l = ''l2'') (moderationLog world1) = Some hide_log"
    by (simp add: world1_def cooldown_log_def hide_log_def)
  have h1: "absent (castHash cooldown_log)" by (simp add: cooldown_log_def)
  have h2: "\<not> absent (castHash hide_log)" "the (castHash hide_log) = ''0xabc''"
    by (simp_all add: hide_log_def)
  have m: "moderationLog world1 = [cooldown_log, hide_log]" "unhideCalls world1 = []"
    by (simp_all add: world1_def)
  have acts: "ml_action cooldown_log = ''cooldown''" "ml_action hide_log = ''hideQuietly''"
    by (simp_all add: cooldown_log_def hide_log_def)
  note missing = unhide_requires_hash_and_success [OF p a f1 l1,
      where api = "\<lambda>h. None" and newId = "''n1''" and now = 5]
  note failing = unhide_requires_hash_and_success [OF p a f2 l2,
      where api = "\<lambda>h. Some (UnhideFailed ''503'')" and newId = "''n1''" and now = 5
        and e = "UnhideFailed ''503''"]
  note passing = unhide_requires_hash_and_success [OF p a f2 l2,
      where api = "\<lambda>h. None" and newId = "''n1''" and now = 5]
  have c1: "action_logs (\<lambda>h. None) ''n1'' 5 (Inr alice) (Some ''c1'') (form_of ''l1'' ''unhide'')
              world1 = (Inl (InvariantFailed ''castHash is required''), world1)"
    using missing h1 by blast
  have c2: "fst (action_logs (\<lambda>h. Some (UnhideFailed ''503'')) ''n1'' 5 (Inr alice) (Some ''c1'')
          (form_of ''l2'' ''unhide'') world1) = Inl (UnhideFailed ''503'')
     \<and> moderationLog (snd (action_logs (\<lambda>h. Some (UnhideFailed ''503'')) ''n1'' 5 (Inr alice)
          (Some ''c1'') (form_of ''l2'' ''unhide'') world1)) = [cooldown_log, hide_log]"
    using failing h2 m by simp
  have c3: "map ml_action (moderationLog (snd (action_logs (\<lambda>h. None) ''n1'' 5 (Inr alice)
          (Some ''c1'') (form_of ''l2'' ''unhide'') world1)))
      = [''cooldown'', ''hideQuietly'', ''unhide'']
     \<and> unhideCalls (snd (action_logs (\<lambda>h. None) ''n1'' 5 (Inr alice)
          (Some ''c1'') (form_of ''l2'' ''unhide'') world1)) = [''0xabc'']"
    using passing h2 m acts by simp
  show ?thesis using c1 c2 c3 by simp
qed

section \<open>Properties of channel deletion\<close>

lemma require_channel_id:
  "requireUserCanModerateChannel userId channelId w = Inr c \<Longrightarrow> mc_id c = channelId"
  by (auto simp: requireUserCanModerateChannel_def canUserModerateChannel_def Let_def
        find_Some_iff split: option.splits if_splits)

lemma action_settings_delete:
  assumes "\<not> absent params_id"
      and "requireUserCanModerateChannel (user_id user) (the params_id) w = Inr channel"
      and "parse_settings_form rawData = Some ''deleteChannel''"
  shows "action_settings toNumber (Inr user) params_id rawData w =
           (Inr (Json ''Channel removed'' 200),
            w\<lparr>comods := filter (\<lambda>r. comod_channelId r \<noteq> the params_id) (comods w),
              moderationLog := filter (\<lambda>r. ml_channelId r \<noteq> the params_id) (moderationLog w),
              castLog := filter (\<lambda>r. cl_channelId r \<noteq> the params_id) (castLog w),
              moderatedChannel := filter (\<lambda>r. mc_id r \<noteq> the params_id) (moderatedChannel w)\<rparr>)"
  using assms require_channel_id [OF assms(2)]
  by (simp add: action_settings_def Let_def)

lemma action_settings_keeps_logs:
  assumes "parse_settings_form rawData \<noteq> Some ''deleteChannel''"
  shows "moderationLog (snd (action_settings toNumber auth params_id rawData w)) = moderationLog w"
  using assms
  by (auto simp: action_settings_def split: sum.splits option.splits)

lemma moderationLog_create_logs:
  "moderationLog (moderationLog_create newId now act log' user channel why w)
     = moderationLog w @
         [\<lparr>ml_id = newId, ml_action = act,
           affectedUserFid = affectedUserFid log',
           affectedUsername = affectedUsername log',
           affectedUserAvatarUrl = affectedUserAvatarUrl log',
           actor = user_id user, ml_channelId = mc_id channel,
           reason = why, castHash = None, castText = None, createdAt = now\<rparr>]"
  by (simp add: moderationLog_create_def)

lemma cooldown_update_logs:
  "cooldown_update fid channelId w = Inr (updated, w1) \<Longrightarrow> moderationLog w1 = moderationLog w"
  by (auto simp: cooldown_update_def split: option.splits)

lemma unhide_logs:
  "unhide api h w = (r, w1) \<Longrightarrow> moderationLog w1 = moderationLog w"
  by (auto simp: unhide_def)

lemma action_logs_keeps_logs:
  "prefix (moderationLog w)
     (moderationLog (snd (action_logs api newId now auth params_id rawData w)))"
proof -
  have cd: "prefix (moderationLog w)
             (moderationLog (snd (case cooldown_update fid cid w of
                 Inl e \<Rightarrow> (Inl e, w)
               | Inr (updated, w1) \<Rightarrow>
                   (Inr (Json ''success'' 200),
                    if row_truthy updated
                    then moderationLog_create newId now act log' user channel why w1
                    else w1))))"
    for fid cid act log' user channel why
  proof (cases "cooldown_update fid cid w")
    case (Inl e)
    then show ?thesis by simp
  next
    case (Inr p)
    then obtain updated w1 where "cooldown_update fid cid w = Inr (updated, w1)"
      by (cases p) simp
    then show ?thesis
      using cooldown_update_logs [of fid cid w updated w1]
      by (simp add: moderationLog_create_logs)
  qed
  have uh: "prefix (moderationLog w)
             (moderationLog (snd (case unhide api h w of
                 (Some e, w1) \<Rightarrow> (Inl e, w1)
               | (None, w1) \<Rightarrow>
                   (Inr (Json ''success'' 200),
                    moderationLog_create newId now act log' user channel why w1))))"
    for h act log' user channel why
    by (simp add: unhide_def moderationLog_create_logs split: option.splits)
  show ?thesis
    unfolding action_logs_def
    by (simp add: cd uh split: sum.splits option.splits prod.splits)
qed

text \<open>
  C9. For a moderator of the channel, the intent \<open>deleteChannel\<close> leaves in \<open>comods\<close>,
  \<open>moderationLog\<close> and \<open>castLog\<close> exactly the rows of the other channels, in their
  order, and removes the channel's own row from \<open>moderatedChannel\<close>; nothing else
  changes. No other write of the handlers removes a moderation log entry: the other
  intent of the settings route leaves the log as it is, and the action of the moderation
  log route only appends to it.
\<close>

theorem deleteChannel_removes_channel_rows:
  "(\<not> absent params_id
    \<and> requireUserCanModerateChannel (user_id user) (the params_id) w = Inr channel
    \<and> parse_settings_form rawData = Some ''deleteChannel''
    \<and> w' = snd (action_settings toNumber (Inr user) params_id rawData w) \<longrightarrow>
      fst (action_settings toNumber (Inr user) params_id rawData w)
        = Inr (Json ''Channel removed'' 200)
    \<and> comods w' = filter (\<lambda>r. comod_channelId r \<noteq> mc_id channel) (comods w)
    \<and> moderationLog w' = filter (\<lambda>r. ml_channelId r \<noteq> mc_id channel) (moderationLog w)
    \<and> castLog w' = filter (\<lambda>r. cl_channelId r \<noteq> mc_id channel) (castLog w)
    \<and> moderatedChannel w' = filter (\<lambda>r. mc_id r \<noteq> mc_id channel) (moderatedChannel w)
    \<and> cooldown w' = cooldown w \<and> unhideCalls w' = unhideCalls w)
 \<and> (parse_settings_form rawData \<noteq> Some ''deleteChannel'' \<longrightarrow>
      moderationLog (snd (action_settings toNumber auth params_id rawData w)) = moderationLog w)
 \<and> prefix (moderationLog w)
      (moderationLog (snd (action_logs api newId now auth params_id form w)))"
  using action_settings_delete [of params_id user w channel rawData toNumber]
        require_channel_id [of "user_id user" "the params_id" w channel]
        action_settings_keeps_logs [of rawData toNumber auth params_id w]
        action_logs_keeps_logs [of w api newId now auth params_id form]
  by simp


theorem deleteChannel_removes_channel_rows_witness:
  "moderationLog (snd (action_settings (\<lambda>v. None) (Inr alice) (Some ''c1'')
       (settings_form ''deleteChannel'') world2)) = [other_log]
 \<and> comods (snd (action_settings (\<lambda>v. None) (Inr alice) (Some ''c1'')
       (settings_form ''deleteChannel'') world2)) = [\<lparr>comod_fid = ''u1'', comod_channelId = ''c2''\<rparr>]
 \<and> map hash (castLog (snd (action_settings (\<lambda>v. None) (Inr alice) (Some ''c1'')
       (settings_form ''deleteChannel'') world2))) = [''0xdef'']
 \<and> map mc_id (moderatedChannel (snd (action_settings (\<lambda>v. None) (Inr alice) (Some ''c1'')
       (settings_form ''deleteChannel'') world2))) = [''c2'']
 \<and> moderationLog (snd (action_settings (\<lambda>v. Some 1) (Inr alice) (Some ''c1'')
       (settings_form ''updateBannedListSetting'') world2)) = [cooldown_log, other_log, hide_log]"
proof -
  have p: "\<not> absent (Some ''c1'')" by simp
  have a: "requireUserCanModerateChannel (user_id alice) (the (Some ''c1'')) world2 = Inr channel1"
    by (simp add: requireUserCanModerateChannel_def canUserModerateChannel_def world2_def
          channel1_def alice_def)
  have f: "parse_settings_form (settings_form ''deleteChannel'') = Some ''deleteChannel''"
    by (simp add: parse_settings_form_def settings_form_def)
  have g: "parse_settings_form (settings_form ''updateBannedListSetting'') \<noteq> Some ''deleteChannel''"
    by (simp add: parse_settings_form_def settings_form_def)
  have tables:
    "filter (\<lambda>r. ml_channelId r \<noteq> mc_id channel1) (moderationLog world2) = [other_log]"
    "filter (\<lambda>r. comod_channelId r \<noteq> mc_id channel1) (comods world2)
       = [\<lparr>comod_fid = ''u1'', comod_channelId = ''c2''\<rparr>]"
    "map hash (filter (\<lambda>r. cl_channelId r \<noteq> mc_id channel1) (castLog world2)) = [''0xdef'']"
    "map mc_id (filter (\<lambda>r. mc_id r \<noteq> mc_id channel1) (moderatedChannel world2)) = [''c2'']"
    "moderationLog world2 = [cooldown_log, other_log, hide_log]"
    by (simp_all add: world2_def channel1_def cooldown_log_def other_log_def hide_log_def)
  note deleted = deleteChannel_removes_channel_rows
    [where params_id = "Some ''c1''" and user = alice and w = world2 and channel = channel1
       and rawData = "settings_form ''deleteChannel''" and toNumber = "\<lambda>v. None"
       and w' = "snd (action_settings (\<lambda>v. None) (Inr alice) (Some ''c1'')
                        (settings_form ''deleteChannel'') world2)"]
  note kept = deleteChannel_removes_channel_rows
    [where params_id = "Some ''c1''" and auth = "Inr alice" and w = world2
       and rawData = "settings_form ''updateBannedListSetting''" and toNumber = "\<lambda>v. Some 1"]
  have d: "moderationLog (snd (action_settings (\<lambda>v. None) (Inr alice) (Some ''c1'')
       (settings_form ''deleteChannel'') world2)) = [other_log]
     \<and> comods (snd (action_settings (\<lambda>v. None) (Inr alice) (Some ''c1'')
       (settings_form ''deleteChannel'') world2)) = [\<lparr>comod_fid = ''u1'', comod_channelId = ''c2''\<rparr>]
     \<and> map hash (castLog (snd (action_settings (\<lambda>v. None) (Inr alice) (Some ''c1'')
       (settings_form ''deleteChannel'') world2))) = [''0xdef'']
     \<and> map mc_id (moderatedChannel (snd (action_settings (\<lambda>v. None) (Inr alice) (Some ''c1'')
       (settings_form ''deleteChannel'') world2))) = [''c2'']"
    using deleted p a f tables by simp
  have k: "moderationLog (snd (action_settings (\<lambda>v. Some 1) (Inr alice) (Some ''c1'')
       (settings_form ''updateBannedListSetting'') world2)) = [cooldown_log, other_log, hide_log]"
    using kept g tables by simp
  show ?thesis using d k by simp
qed

section \<open>Properties of paginated reading\<close>

lemma shift_small: "n < 2 ^ 53 \<Longrightarrow> shift_of n = 0"
  by (simp add: shift_of.simps)

lemma round_double_exact: "\<bar>z\<bar> < 2 ^ 53 \<Longrightarrow> round_double z = Fin z"
proof -
  assume a: "\<bar>z\<bar> < 2 ^ 53"
  define n where "n = nat \<bar>z\<bar>"
  have n: "n < 2 ^ 53" using a by (simp add: n_def nat_less_iff)
  then have k: "shift_of n = 0" by (rule shift_small)
  have "(2::nat) ^ 53 < 2 ^ 1024" by simp
  with n have big: "\<not> n \<ge> 2 ^ 1024" by linarith
  have z: "(if z < 0 then - int n else int n) = z" by (simp add: n_def)
  have "round_double z = Fin (if z < 0 then - int n else int n)"
    unfolding round_double_def n_def [symmetric] Let_def k using big by simp
  then show ?thesis by (simp only: z)
qed

lemma parseInt_examples:
  "parseInt ''1'' = Fin 1" "parseInt ''3'' = Fin 3" "parseInt ''50'' = Fin 50"
  "parseInt ''abc'' = NaN"
  by (simp_all add: parseInt_def isWhiteSpace_def digit_of_def Let_def round_double_exact)

lemma default_text: "string_of_nat defaultPageSize = ''50''"
  by (simp add: defaultPageSize_def string_of_nat.simps digit_char_def)

lemma pageSize_bounds:
  "\<exists>n. pageSize (getPageInfo q) = Fin n \<and> 0 \<le> n \<and> n \<le> 100"
  by (cases "parseInt (or_else (q ''pageSize'') (string_of_nat defaultPageSize))")
     (simp_all add: getPageInfo_def Let_def defaultPageSize_def)

lemma page_bounds:
  "page (getPageInfo q) = PosInf \<or> (\<exists>n. page (getPageInfo q) = Fin n \<and> 1 \<le> n)"
  by (cases "parseInt (or_else (q ''page'') ''1'')")
     (simp_all add: getPageInfo_def Let_def)

lemma newest_first_sorted:
  "sorted_wrt (\<lambda>a b. createdAt b \<le> createdAt a) (newest_first channelId w)"
proof -
  have "sorted (map (\<lambda>l. - createdAt l) (newest_first channelId w))"
    by (simp add: newest_first_def)
  then show ?thesis
    by (simp add: sorted_wrt_map)
qed

lemma newest_first_length:
  "int (length (newest_first channelId w)) = count_logs channelId w"
  by (simp add: newest_first_def count_logs_def)



lemma getPageInfo_numeric:
  assumes "parseInt (or_else (q ''page'') ''1'') = Fin a"
      and "parseInt (or_else (q ''pageSize'') ''50'') = Fin b"
      and "1 \<le> a" and "a < 2 ^ 40"
  shows "getPageInfo q =
           \<lparr>page = Fin a, pageSize = Fin (max (min b 100) 0),
            skip = Fin ((a - 1) * max (min b 100) 0)\<rparr>"
proof -
  define B where "B = max (min b 100) 0"
  have m: "0 \<le> B" "B \<le> 100" by (simp_all add: B_def)
  have a0: "0 \<le> a - 1" using assms(3) by simp
  have "(a - 1) * B \<le> (a - 1) * 100"
    using a0 m(2) by (rule mult_left_mono [rotated])
  also have "\<dots> < 2 ^ 40 * 100" using assms(4) by simp
  also have "\<dots> < (2::int) ^ 53" by simp
  finally have s1: "(a - 1) * B < 2 ^ 53" .
  have s0: "0 \<le> (a - 1) * B" using a0 m(1) by simp
  have r1: "round_double ((a - 1) * B) = Fin ((a - 1) * B)"
    using s0 s1 by (intro round_double_exact) simp
  have "(2::int) ^ 40 < 2 ^ 53" by simp
  with assms(4) have "a - 1 < 2 ^ 53" by linarith
  with a0 have r2: "round_double (a - 1) = Fin (a - 1)"
    by (intro round_double_exact) simp
  have p0: "Math_max (parseInt (or_else (q ''page'') ''1'')) (Fin 1) = Fin a"
    using assms(1,3) by (simp add: max_def)
  have ps0: "Math_max
              (Math_min
                 (parseInt (or_else (q ''pageSize'') (string_of_nat defaultPageSize)))
                 (Fin 100))
              (Fin 0) = Fin B"
    using assms(2) by (simp add: default_text B_def)
  have sk: "js_times (js_minus (Fin a) (Fin 1)) (Fin B) = Fin ((a - 1) * B)"
    by (simp add: r2 r1)
  show ?thesis
    unfolding getPageInfo_def Let_def p0 ps0 sk B_def [symmetric]
    by simp
qed


lemma loader_logs_authorized:
  assumes "\<not> absent params_id"
      and "requireUserCanModerateChannel (user_id user) (the params_id) w = Inr channel"
  shows "loader_logs (Inr user) params_id q w =
           (case findMany (mc_id channel) (pageSize (getPageInfo q)) (skip (getPageInfo q)) w of
              Inl e \<Rightarrow> Inl e
            | Inr moderationLogs \<Rightarrow>
                Inr \<lparr>ld_page = page (getPageInfo q), ld_pageSize = pageSize (getPageInfo q),
                     ld_total = count_logs (mc_id channel) w,
                     ld_moderationLogs = moderationLogs\<rparr>)"
  using assms by (simp add: loader_logs_def Let_def)

lemma world120_alice:
  "requireUserCanModerateChannel (user_id alice) (the (Some ''c1'')) world120 = Inr channel1"
  by (simp add: requireUserCanModerateChannel_def canUserModerateChannel_def world120_def
        channel1_def alice_def)

lemma world120_count: "count_logs (mc_id channel1) world120 = 120"
proof -
  have f: "filter (\<lambda>l. ml_channelId l = ''c1'') (map numbered_log xs) = map numbered_log xs"
    for xs
    by (induction xs) (simp_all add: numbered_log_def)
  show ?thesis
    by (simp add: count_logs_def world120_def channel1_def f)
qed

lemma page3_unparsed_size:
  "getPageInfo (query ''3'' ''abc'') = \<lparr>page = Fin 3, pageSize = Fin 50, skip = Fin 0\<rparr>"
  by (simp add: getPageInfo_def Let_def query_def or_else_def parseInt_examples
        defaultPageSize_def round_double_exact)

lemma page3_empty_size:
  "getPageInfo (query ''3'' []) = \<lparr>page = Fin 3, pageSize = Fin 50, skip = Fin 100\<rparr>"
proof -
  have "getPageInfo (query ''3'' []) =
          \<lparr>page = Fin 3, pageSize = Fin (max (min 50 100) 0),
           skip = Fin ((3 - 1) * max (min 50 100) 0)\<rparr>"
    by (rule getPageInfo_numeric) (simp_all add: query_def or_else_def parseInt_examples)
  then show ?thesis by simp
qed

text \<open>
  C5, at the input where the code leaves it. For the request \<open>?page=3&pageSize=abc\<close>
  the page size falls back to 50 and the page stays 3, but \<open>skip\<close> is computed from the
  unparsed page size, is \<open>NaN\<close> and falls back to 0, not to \<open>(3 - 1) * 50\<close>: on a channel
  with 120 entries the loader answers page 3 with the 50 newest entries. With an empty
  \<open>pageSize\<close> parameter, which takes the same default of 50, \<open>skip\<close> is 100 and page 3
  has the entries after the first 100.
\<close>

theorem getPageInfo_skip_ignores_page:
  "getPageInfo (query ''3'' ''abc'') = \<lparr>page = Fin 3, pageSize = Fin 50, skip = Fin 0\<rparr>
 \<and> getPageInfo (query ''3'' []) = \<lparr>page = Fin 3, pageSize = Fin 50, skip = Fin 100\<rparr>
 \<and> loader_logs (Inr alice) (Some ''c1'') (query ''3'' ''abc'') world120
      = Inr \<lparr>ld_page = Fin 3, ld_pageSize = Fin 50, ld_total = 120,
             ld_moderationLogs = take 50 (newest_first ''c1'' world120)\<rparr>
 \<and> loader_logs (Inr alice) (Some ''c1'') (query ''3'' []) world120
      = Inr \<lparr>ld_page = Fin 3, ld_pageSize = Fin 50, ld_total = 120,
             ld_moderationLogs = take 50 (drop 100 (newest_first ''c1'' world120))\<rparr>"
proof -
  have p: "\<not> absent (Some ''c1'')" by simp
  have i: "mc_id channel1 = ''c1''" by (simp add: channel1_def)
  have a: "loader_logs (Inr alice) (Some ''c1'') (query ''3'' ''abc'') world120
      = Inr \<lparr>ld_page = Fin 3, ld_pageSize = Fin 50, ld_total = 120,
             ld_moderationLogs = take 50 (newest_first ''c1'' world120)\<rparr>"
    unfolding loader_logs_authorized [OF p world120_alice] page3_unparsed_size
    using world120_count by (simp add: findMany_def i)
  have b: "loader_logs (Inr alice) (Some ''c1'') (query ''3'' []) world120
      = Inr \<lparr>ld_page = Fin 3, ld_pageSize = Fin 50, ld_total = 120,
             ld_moderationLogs = take 50 (drop 100 (newest_first ''c1'' world120))\<rparr>"
    unfolding loader_logs_authorized [OF p world120_alice] page3_empty_size
    using world120_count by (simp add: findMany_def i)
  show ?thesis
    using page3_unparsed_size page3_empty_size a b by blast
qed


text \<open>
  Where both parameters parse, the pages are the slices the claim describes: on a
  channel with 120 entries, \<open>page=1\<close> with \<open>pageSize=50\<close> gives the 50 newest and
  \<open>page=3\<close> the remaining 20.
\<close>

lemma pages_of_120:
  assumes "\<not> absent params_id"
      and "requireUserCanModerateChannel (user_id user) (the params_id) w = Inr channel"
      and "count_logs (mc_id channel) w = 120"
      and "q ''pageSize'' = Some ''50''"
  shows "(q ''page'' = Some ''1'' \<longrightarrow>
            loader_logs (Inr user) params_id q w
              = Inr \<lparr>ld_page = Fin 1, ld_pageSize = Fin 50, ld_total = 120,
                     ld_moderationLogs = take 50 (newest_first (mc_id channel) w)\<rparr>
          \<and> length (take 50 (newest_first (mc_id channel) w)) = 50)
       \<and> (q ''page'' = Some ''3'' \<longrightarrow>
            loader_logs (Inr user) params_id q w
              = Inr \<lparr>ld_page = Fin 3, ld_pageSize = Fin 50, ld_total = 120,
                     ld_moderationLogs = drop 100 (newest_first (mc_id channel) w)\<rparr>
          \<and> length (drop 100 (newest_first (mc_id channel) w)) = 20)"
proof -
  have len: "length (newest_first (mc_id channel) w) = 120"
    using assms(3) newest_first_length [of "mc_id channel" w] by simp
  have first: "getPageInfo q = \<lparr>page = Fin 1, pageSize = Fin 50, skip = Fin 0\<rparr>"
    if "q ''page'' = Some ''1''"
  proof -
    have "getPageInfo q =
            \<lparr>page = Fin 1, pageSize = Fin (max (min 50 100) 0),
             skip = Fin ((1 - 1) * max (min 50 100) 0)\<rparr>"
      using that assms(4)
      by (intro getPageInfo_numeric) (simp_all add: or_else_def parseInt_examples)
    then show ?thesis by simp
  qed
  have third: "getPageInfo q = \<lparr>page = Fin 3, pageSize = Fin 50, skip = Fin 100\<rparr>"
    if "q ''page'' = Some ''3''"
  proof -
    have "getPageInfo q =
            \<lparr>page = Fin 3, pageSize = Fin (max (min 50 100) 0),
             skip = Fin ((3 - 1) * max (min 50 100) 0)\<rparr>"
      using that assms(4)
      by (intro getPageInfo_numeric) (simp_all add: or_else_def parseInt_examples)
    then show ?thesis by simp
  qed
  show ?thesis
    unfolding loader_logs_authorized [OF assms(1,2)]
    using first third len assms(3) by (simp add: findMany_def)
qed

text \<open>
  A page number past the exact range of a double is rounded, and a \<open>skip\<close> of \<open>2 ^ 63\<close>
  or more makes the loader throw.
\<close>

lemma huge_page:
  "getPageInfo (query ''99999999999999999999'' ''50'')
     = \<lparr>page = Fin 100000000000000000000, pageSize = Fin 50,
        skip = Fin 5000000000000000000000\<rparr>"
proof -
  have s20: "shift_of 99999999999999999999 = 14" "shift_of 100000000000000000000 = 14"
    by (simp_all add: shift_of.simps)
  have s22: "shift_of 5000000000000000000000 = 20"
    by (simp add: shift_of.simps)
  have r20: "round_double 99999999999999999999 = Fin 100000000000000000000"
    by (simp add: round_double_def s20 Let_def)
  have r22: "round_double 5000000000000000000000 = Fin 5000000000000000000000"
    by (simp add: round_double_def s22 Let_def)
  have p: "parseInt ''99999999999999999999'' = Fin 100000000000000000000"
    by (simp add: parseInt_def isWhiteSpace_def digit_of_def Let_def r20)
  show ?thesis
    by (simp add: getPageInfo_def Let_def query_def or_else_def p parseInt_examples
          default_text r20 r22)
qed

lemma huge_page_refused:
  "loader_logs (Inr alice) (Some ''c1'') (query ''99999999999999999999'' ''50'') world120
     = Inl QueryRefused"
proof -
  have p: "\<not> absent (Some ''c1'')" by simp
  show ?thesis
    unfolding loader_logs_authorized [OF p world120_alice] huge_page
    by (simp add: findMany_def)
qed

end
